theory Spec2Isabelle
  imports Complex_Main "HOL-Library.AList"
begin

section \<open>The alerting core of alert_system.py\<close>

text \<open>
  A shallow embedding of class \<open>AlertSystem\<close> (src/python/alert_system.py).

  Conventions of the model.
  \<^item> Python floats (metric percentages, thresholds, \<open>time.time()\<close>) are real numbers:
    the comparisons of the source are exact on finite floats; the one subtraction
    (\<open>time.time() - last\<close>) is taken exact. NaN and the infinities are not modelled.
  \<^item> The configuration dictionary is read through a typed record: the keys of the default
    schema are present and hold values of the default's types. Keys the source reads with
    \<open>dict.get(key, default)\<close> are optional fields.
  \<^item> The text of a message (an f-string with accents and float formatting) is kept
    symbolic: one constructor per f-string of the source, holding the values it formats.
  \<^item> Everything outside the process is an environment of oracles, one per external
    call, indexed by the number of external calls made so far (\<open>tick\<close>). What the
    process does to the outside world is appended to \<open>effects\<close>.
  \<^item> Every external call returns, with a value or with an exception that the oracle
    reports; a call that blocks for ever (the SMTP exchange has no timeout) is not
    modelled.
  \<^item> The functions below are embedded with console writes that succeed. \<open>log_alert_exc\<close>
    is \<open>log_alert\<close> without that convention, for the one \<open>print\<close> that stands between a
    caught exception and the update of the history.
\<close>

subsection \<open>Configuration\<close>

record thresholds =
  cpu :: real
  memory :: real
  disk :: real
  swap :: real

record email_config =
  email_enabled :: bool
  smtp_server :: string
  smtp_port :: int
  email_from :: string
  email_to :: "string list"
  email_password :: string

record webhook_config =
  webhook_enabled :: bool
  webhook_url :: string
  webhook_method :: string

record config =
  cfg_thresholds :: thresholds
  check_interval :: "int option"
  alert_cooldown :: "real option"
  email :: email_config
  webhook :: webhook_config
  cfg_log_file :: "string option"
  console_alerts :: bool

subsection \<open>Messages, records and effects\<close>

datatype subject =
    SubjCpu
  | SubjMemory
  | SubjDisk
  | SubjSwap
  | SubjService string

datatype smtp_error = ConnectError | StartTlsError | LoginError | SendError | QuitError

datatype message =
    CpuHigh real real
  | MemoryHigh real real
  | DiskFull real real
  | SwapHigh real real
  | ServiceStopped string
  | EmailSent subject
  | EmailError smtp_error
  | WebhookSent

text \<open>An entry of \<open>self.alert_history\<close>: the dict with keys timestamp, type, message, level.\<close>

record alert_record =
  r_timestamp :: string
  r_type :: string
  r_message :: message
  r_level :: string

text \<open>A line of the log file, in the order the source formats it:
  \<open>[timestamp] [level] [alert_type] message\<close>.\<close>

datatype log_line = LogLine string string string message

datatype console_line =
    PAlert message
  | PLogWriteError
  | PEmailSent subject
  | PEmailError smtp_error
  | PWebhookSent
  | PWebhookFailed int
  | PRequestsMissing
  | PRequestsInstallHint
  | PWebhookError
  | PServiceCheckError string

datatype effect =
    Print console_line
  | Appended string log_line
  | SmtpAttempt subject message string string "smtp_error option"
  | HttpPost string message "int option"

subsection \<open>The environment and the state\<close>

text \<open>
  Each oracle answers the external call made at a given tick.
  \<open>open_append\<close>: whether opening the log file for append and writing the line succeed.
  \<open>smtp_session\<close>: \<open>None\<close> when the whole SMTP exchange succeeds, else the step that raised.
  \<open>import_requests\<close>: whether \<open>import requests\<close> succeeds.
  \<open>requests_post\<close>: \<open>None\<close> when \<open>requests.post\<close> raises, else the status code.
  \<open>swap_memory\<close>: the pair (total, percent).
  \<open>systemctl_is_active\<close>: \<open>None\<close> when \<open>subprocess.run\<close> raises (timeout, no systemctl),
  else the captured standard output.
  \<open>console_write\<close>: whether a \<open>print\<close> reaches the console (it raises on a closed or
  broken standard output). A console write is an effect and does not advance the tick;
  the oracle is asked at the tick reached.
\<close>

record env =
  time_time :: "nat \<Rightarrow> real"
  strftime_now :: "nat \<Rightarrow> string"
  hostname :: "nat \<Rightarrow> string"
  open_append :: "nat \<Rightarrow> bool"
  smtp_session :: "nat \<Rightarrow> smtp_error option"
  import_requests :: "nat \<Rightarrow> bool"
  requests_post :: "nat \<Rightarrow> int option"
  cpu_percent :: "nat \<Rightarrow> real"
  virtual_memory_percent :: "nat \<Rightarrow> real"
  disk_usage_percent :: "nat \<Rightarrow> real"
  swap_memory :: "nat \<Rightarrow> nat \<times> real"
  systemctl_is_active :: "nat \<Rightarrow> string \<Rightarrow> string option"
  console_write :: "nat \<Rightarrow> bool"

text \<open>The fields of the \<open>AlertSystem\<close> object, then the bookkeeping of the outside world.\<close>

record sys =
  config :: config
  alert_history :: "alert_record list"
  last_alert_time :: "string \<rightharpoonup> real"
  log_file :: string
  tick :: nat
  effects :: "effect list"

definition ask :: "(nat \<Rightarrow> 'a) \<Rightarrow> sys \<Rightarrow> 'a \<times> sys" where
  "ask oracle s = (oracle (tick s), s\<lparr>tick := Suc (tick s)\<rparr>)"

definition emit :: "effect \<Rightarrow> sys \<Rightarrow> sys" where
  "emit x s = s\<lparr>effects := effects s @ [x]\<rparr>"

subsection \<open>log_alert\<close>

text \<open>Python's \<open>xs[-n:]\<close>: the last \<open>n\<close> elements, the whole list when it is shorter.\<close>

definition slice_last :: "nat \<Rightarrow> 'a list \<Rightarrow> 'a list" where
  "slice_last n xs = drop (length xs - n) xs"

definition log_alert :: "env \<Rightarrow> string \<Rightarrow> message \<Rightarrow> string \<Rightarrow> sys \<Rightarrow> sys" where
  "log_alert e alert_type msg lvl s =
     (let (stamp, s1) = ask (strftime_now e) s;
          log_entry = LogLine stamp lvl alert_type msg;
          (ok, s2) = ask (open_append e) s1;
          s3 = (if ok then emit (Appended (log_file s2) log_entry) s2
                else emit (Print PLogWriteError) s2);
          s4 = s3\<lparr>alert_history := alert_history s3 @
                 [\<lparr>r_timestamp = stamp, r_type = alert_type, r_message = msg, r_level = lvl\<rparr>]\<rparr>
      in if length (alert_history s4) > 100
         then s4\<lparr>alert_history := slice_last 100 (alert_history s4)\<rparr>
         else s4)"

text \<open>
  \<open>log_alert\<close> with a console that can fail. The handler of the file-write exception
  prints the error (source line 142) outside any \<open>try\<close>: when that \<open>print\<close> raises, the
  exception leaves \<open>log_alert\<close> and the statements after the handler (the append to the
  history, the truncation) do not run. \<open>Inl\<close> holds the exception and the object as the
  raise leaves it; \<open>Inr\<close> is the normal return.
\<close>

datatype py_exception = PrintRaised

definition log_alert_exc ::
  "env \<Rightarrow> string \<Rightarrow> message \<Rightarrow> string \<Rightarrow> sys \<Rightarrow> (py_exception \<times> sys) + sys" where
  "log_alert_exc e alert_type msg lvl s =
     (let (stamp, s1) = ask (strftime_now e) s;
          log_entry = LogLine stamp lvl alert_type msg;
          (ok, s2) = ask (open_append e) s1
      in if \<not> ok \<and> \<not> console_write e (tick s2) then Inl (PrintRaised, s2)
         else
           let s3 = (if ok then emit (Appended (log_file s2) log_entry) s2
                     else emit (Print PLogWriteError) s2);
               s4 = s3\<lparr>alert_history := alert_history s3 @
                      [\<lparr>r_timestamp = stamp, r_type = alert_type, r_message = msg,
                         r_level = lvl\<rparr>]\<rparr>
           in Inr (if length (alert_history s4) > 100
                   then s4\<lparr>alert_history := slice_last 100 (alert_history s4)\<rparr>
                   else s4))"

subsection \<open>can_send_alert\<close>

definition can_send_alert :: "env \<Rightarrow> string \<Rightarrow> sys \<Rightarrow> bool \<times> sys" where
  "can_send_alert e alert_type s =
     (let cooldown = (case alert_cooldown (config s) of None \<Rightarrow> 300 | Some c \<Rightarrow> c)
      in case last_alert_time s alert_type of
           None \<Rightarrow> (True, s)
         | Some last_time \<Rightarrow>
             (let (now, s1) = ask (time_time e) s;
                  time_since_last = now - last_time
              in (time_since_last \<ge> cooldown, s1)))"

subsection \<open>The email and webhook channels\<close>

text \<open>
  The body of the \<open>try\<close> of \<open>send_email_alert\<close> builds the message (reading the host name
  and the date), then talks to the SMTP server; any exception of it reaches the one
  \<open>except Exception\<close> handler, which prints, logs an ERROR entry and returns False.
\<close>

definition send_email_alert :: "env \<Rightarrow> subject \<Rightarrow> message \<Rightarrow> sys \<Rightarrow> bool \<times> sys" where
  "send_email_alert e subj msg s =
     (if \<not> email_enabled (email (config s)) then (False, s)
      else
        let (host, s1) = ask (hostname e) s;
            (date, s2) = ask (strftime_now e) s1;
            (outcome, s3) = ask (smtp_session e) s2;
            s4 = emit (SmtpAttempt subj msg host date outcome) s3
        in case outcome of
             None \<Rightarrow>
               (let s5 = emit (Print (PEmailSent subj)) s4;
                    s6 = log_alert e ''EMAIL'' (EmailSent subj) ''INFO'' s5
                in (True, s6))
           | Some err \<Rightarrow>
               (let s5 = emit (Print (PEmailError err)) s4;
                    s6 = log_alert e ''EMAIL'' (EmailError err) ''ERROR'' s5
                in (False, s6)))"

definition send_webhook_alert :: "env \<Rightarrow> message \<Rightarrow> sys \<Rightarrow> bool \<times> sys" where
  "send_webhook_alert e msg s =
     (if \<not> webhook_enabled (webhook (config s)) then (False, s)
      else
        let (imported, s1) = ask (import_requests e) s
        in if \<not> imported
           then (False, emit (Print PRequestsInstallHint) (emit (Print PRequestsMissing) s1))
           else
             let (response, s2) = ask (requests_post e) s1;
                 s3 = emit (HttpPost (webhook_url (webhook (config s2))) msg response) s2
             in case response of
                  None \<Rightarrow> (False, emit (Print PWebhookError) s3)
                | Some status_code \<Rightarrow>
                    if status_code = 200
                    then (let s4 = emit (Print PWebhookSent) s3;
                              s5 = log_alert e ''WEBHOOK'' WebhookSent ''INFO'' s4
                          in (True, s5))
                    else (False, emit (Print (PWebhookFailed status_code)) s3))"

subsection \<open>The metric checks\<close>

definition check_cpu :: "env \<Rightarrow> sys \<Rightarrow> bool \<times> sys" where
  "check_cpu e s =
     (let (cpu_pct, s1) = ask (cpu_percent e) s;
          threshold = cpu (cfg_thresholds (config s1))
      in if cpu_pct > threshold then
           (let (can_send, s2) = can_send_alert e ''CPU'' s1
            in if can_send then
                 (let msg = CpuHigh cpu_pct threshold;
                      s3 = (if console_alerts (config s2) then emit (Print (PAlert msg)) s2 else s2);
                      s4 = log_alert e ''CPU'' msg ''WARNING'' s3;
                      s5 = (if email_enabled (email (config s4))
                            then snd (send_email_alert e SubjCpu msg s4) else s4);
                      s6 = (if webhook_enabled (webhook (config s5))
                            then snd (send_webhook_alert e msg s5) else s5);
                      (now, s7) = ask (time_time e) s6
                  in (True, s7\<lparr>last_alert_time := (last_alert_time s7)(''CPU'' \<mapsto> now)\<rparr>))
               else (False, s2))
         else (False, s1))"

definition check_memory :: "env \<Rightarrow> sys \<Rightarrow> bool \<times> sys" where
  "check_memory e s =
     (let (mem_pct, s1) = ask (virtual_memory_percent e) s;
          threshold = memory (cfg_thresholds (config s1))
      in if mem_pct > threshold then
           (let (can_send, s2) = can_send_alert e ''MEMORY'' s1
            in if can_send then
                 (let msg = MemoryHigh mem_pct threshold;
                      s3 = (if console_alerts (config s2) then emit (Print (PAlert msg)) s2 else s2);
                      s4 = log_alert e ''MEMORY'' msg ''WARNING'' s3;
                      s5 = (if email_enabled (email (config s4))
                            then snd (send_email_alert e SubjMemory msg s4) else s4);
                      s6 = (if webhook_enabled (webhook (config s5))
                            then snd (send_webhook_alert e msg s5) else s5);
                      (now, s7) = ask (time_time e) s6
                  in (True, s7\<lparr>last_alert_time := (last_alert_time s7)(''MEMORY'' \<mapsto> now)\<rparr>))
               else (False, s2))
         else (False, s1))"

definition check_disk :: "env \<Rightarrow> sys \<Rightarrow> bool \<times> sys" where
  "check_disk e s =
     (let (disk_pct, s1) = ask (disk_usage_percent e) s;
          threshold = disk (cfg_thresholds (config s1))
      in if disk_pct > threshold then
           (let (can_send, s2) = can_send_alert e ''DISK'' s1
            in if can_send then
                 (let msg = DiskFull disk_pct threshold;
                      s3 = (if console_alerts (config s2) then emit (Print (PAlert msg)) s2 else s2);
                      s4 = log_alert e ''DISK'' msg ''CRITICAL'' s3;
                      s5 = (if email_enabled (email (config s4))
                            then snd (send_email_alert e SubjDisk msg s4) else s4);
                      s6 = (if webhook_enabled (webhook (config s5))
                            then snd (send_webhook_alert e msg s5) else s5);
                      (now, s7) = ask (time_time e) s6
                  in (True, s7\<lparr>last_alert_time := (last_alert_time s7)(''DISK'' \<mapsto> now)\<rparr>))
               else (False, s2))
         else (False, s1))"

definition check_swap :: "env \<Rightarrow> sys \<Rightarrow> bool \<times> sys" where
  "check_swap e s =
     (let ((swap_total, swap_pct), s1) = ask (swap_memory e) s
      in if swap_total = 0 then (False, s1)
         else
           let threshold = swap (cfg_thresholds (config s1))
           in if swap_pct > threshold then
                (let (can_send, s2) = can_send_alert e ''SWAP'' s1
                 in if can_send then
                      (let msg = SwapHigh swap_pct threshold;
                           s3 = (if console_alerts (config s2) then emit (Print (PAlert msg)) s2 else s2);
                           s4 = log_alert e ''SWAP'' msg ''WARNING'' s3;
                           s5 = (if email_enabled (email (config s4))
                                 then snd (send_email_alert e SubjSwap msg s4) else s4);
                           s6 = (if webhook_enabled (webhook (config s5))
                                 then snd (send_webhook_alert e msg s5) else s5);
                           (now, s7) = ask (time_time e) s6
                       in (True, s7\<lparr>last_alert_time := (last_alert_time s7)(''SWAP'' \<mapsto> now)\<rparr>))
                    else (False, s2))
              else (False, s1))"

subsection \<open>check_service_down\<close>

text \<open>
  \<open>str.strip()\<close> removes leading and trailing white space. Characters are code points
  below 256; the white space among them is 9..13, 28..32, 133 and 160.
\<close>

definition is_space :: "char \<Rightarrow> bool" where
  "is_space c = (of_char c \<in> {9, 10, 11, 12, 13, 28, 29, 30, 31, 32, 133, 160 :: nat})"

definition strip :: "string \<Rightarrow> string" where
  "strip xs = rev (dropWhile is_space (rev (dropWhile is_space xs)))"

text \<open>
  Inside the \<open>try\<close>, only \<open>subprocess.run\<close> can raise in this model; the handler prints
  and the function returns False.
\<close>

definition check_service_down :: "env \<Rightarrow> string \<Rightarrow> sys \<Rightarrow> bool \<times> sys" where
  "check_service_down e service_name s =
     (let (result, s1) = ask (\<lambda>n. systemctl_is_active e n service_name) s
      in case result of
           None \<Rightarrow> (False, emit (Print (PServiceCheckError service_name)) s1)
         | Some stdout \<Rightarrow>
             (let is_active = (strip stdout = ''active'')
              in if \<not> is_active then
                   (let (can_send, s2) = can_send_alert e (''SERVICE_'' @ service_name) s1
                    in if can_send then
                         (let msg = ServiceStopped service_name;
                              s3 = (if console_alerts (config s2)
                                    then emit (Print (PAlert msg)) s2 else s2);
                              s4 = log_alert e ''SERVICE'' msg ''CRITICAL'' s3;
                              s5 = (if email_enabled (email (config s4))
                                    then snd (send_email_alert e (SubjService service_name) msg s4)
                                    else s4);
                              s6 = (if webhook_enabled (webhook (config s5))
                                    then snd (send_webhook_alert e msg s5) else s5);
                              (now, s7) = ask (time_time e) s6
                          in (True, s7\<lparr>last_alert_time :=
                                (last_alert_time s7)(''SERVICE_'' @ service_name \<mapsto> now)\<rparr>))
                       else (False, s2))
                 else (False, s1)))"

subsection \<open>The dispatch sequence shared by the five checks\<close>

text \<open>
  The source repeats the same statements in the firing branch of every check: console,
  log, email, webhook, then the time stamp. \<open>dispatch\<close> is that sequence with the
  cooldown key, the record's type and level, the email subject and the message as
  parameters. It is a device of the proofs: the lemmas \<open>check_*_dispatch\<close> show that
  each check, as embedded above, runs it.
\<close>

definition dispatch ::
  "env \<Rightarrow> string \<Rightarrow> string \<Rightarrow> string \<Rightarrow> subject \<Rightarrow> message \<Rightarrow> sys \<Rightarrow> sys" where
  "dispatch e key alert_type lvl subj msg s2 =
     (let s3 = (if console_alerts (config s2) then emit (Print (PAlert msg)) s2 else s2);
          s4 = log_alert e alert_type msg lvl s3;
          s5 = (if email_enabled (email (config s4))
                then snd (send_email_alert e subj msg s4) else s4);
          s6 = (if webhook_enabled (webhook (config s5))
                then snd (send_webhook_alert e msg s5) else s5);
          (now, s7) = ask (time_time e) s6
      in s7\<lparr>last_alert_time := (last_alert_time s7)(key \<mapsto> now)\<rparr>)"

text \<open>
  What one firing adds to the outside world and to the history, written as functions
  of the environment and of the tick at which each channel starts. They describe the
  result of the source's statements and are compared with it in the lemmas below.
\<close>

definition log_effect :: "env \<Rightarrow> nat \<Rightarrow> string \<Rightarrow> string \<Rightarrow> string \<Rightarrow> message \<Rightarrow> effect" where
  "log_effect e n path lvl alert_type msg =
     (if open_append e (n + 1) then Appended path (LogLine (strftime_now e n) lvl alert_type msg)
      else Print PLogWriteError)"

definition email_effects :: "env \<Rightarrow> nat \<Rightarrow> string \<Rightarrow> subject \<Rightarrow> message \<Rightarrow> effect list" where
  "email_effects e n path subj msg =
     (case smtp_session e (n + 2) of
        None \<Rightarrow>
          [SmtpAttempt subj msg (hostname e n) (strftime_now e (n + 1)) None,
           Print (PEmailSent subj),
           log_effect e (n + 3) path ''INFO'' ''EMAIL'' (EmailSent subj)]
      | Some err \<Rightarrow>
          [SmtpAttempt subj msg (hostname e n) (strftime_now e (n + 1)) (Some err),
           Print (PEmailError err),
           log_effect e (n + 3) path ''ERROR'' ''EMAIL'' (EmailError err)])"

definition webhook_effects :: "env \<Rightarrow> nat \<Rightarrow> string \<Rightarrow> string \<Rightarrow> message \<Rightarrow> effect list" where
  "webhook_effects e n url path msg =
     (if \<not> import_requests e n then [Print PRequestsMissing, Print PRequestsInstallHint]
      else HttpPost url msg (requests_post e (n + 1)) #
        (case requests_post e (n + 1) of
           None \<Rightarrow> [Print PWebhookError]
         | Some status_code \<Rightarrow>
             if status_code = 200
             then [Print PWebhookSent, log_effect e (n + 2) path ''INFO'' ''WEBHOOK'' WebhookSent]
             else [Print (PWebhookFailed status_code)]))"

definition channel_record :: "alert_record \<Rightarrow> bool" where
  "channel_record r =
     (r_type r = ''EMAIL'' \<and> (r_level r = ''INFO'' \<or> r_level r = ''ERROR'') \<or>
      r_type r = ''WEBHOOK'' \<and> r_level r = ''INFO'')"

definition email_record :: "env \<Rightarrow> nat \<Rightarrow> subject \<Rightarrow> alert_record" where
  "email_record e n subj =
     (case smtp_session e (n + 2) of
        None \<Rightarrow> \<lparr>r_timestamp = strftime_now e (n + 3), r_type = ''EMAIL'',
                  r_message = EmailSent subj, r_level = ''INFO''\<rparr>
      | Some err \<Rightarrow> \<lparr>r_timestamp = strftime_now e (n + 3), r_type = ''EMAIL'',
                  r_message = EmailError err, r_level = ''ERROR''\<rparr>)"

definition webhook_records :: "env \<Rightarrow> nat \<Rightarrow> alert_record list" where
  "webhook_records e n =
     (if import_requests e n \<and> requests_post e (n + 1) = Some 200
      then [\<lparr>r_timestamp = strftime_now e (n + 2), r_type = ''WEBHOOK'',
              r_message = WebhookSent, r_level = ''INFO''\<rparr>]
      else [])"

definition alert_records ::
  "env \<Rightarrow> sys \<Rightarrow> string \<Rightarrow> string \<Rightarrow> subject \<Rightarrow> message \<Rightarrow> alert_record list" where
  "alert_records e s alert_type lvl subj msg =
     \<lparr>r_timestamp = strftime_now e (tick s), r_type = alert_type, r_message = msg, r_level = lvl\<rparr> #
     (if email_enabled (email (config s)) then [email_record e (tick s + 2) subj] else []) @
     (if webhook_enabled (webhook (config s))
      then webhook_records e (tick s + (if email_enabled (email (config s)) then 7 else 2))
      else [])"


text \<open>The severity table of the specification, as a predicate on a history.\<close>

definition severity_table :: "alert_record list \<Rightarrow> bool" where
  "severity_table h =
     (\<forall>r \<in> set h.
        (r_type r \<in> {''CPU'', ''MEMORY'', ''SWAP''} \<longrightarrow> r_level r = ''WARNING'') \<and>
        (r_type r \<in> {''DISK'', ''SERVICE''} \<longrightarrow> r_level r = ''CRITICAL'') \<and>
        (r_type r = ''WEBHOOK'' \<longrightarrow> r_level r = ''INFO'') \<and>
        (r_type r = ''EMAIL'' \<longrightarrow> r_level r \<in> {''INFO'', ''ERROR''}))"

section \<open>Loading the configuration\<close>

text \<open>
  \<open>load_config\<close> and \<open>create_example_config\<close> work on JSON documents. A Python dict
  with string keys is an association list in insertion order; \<open>AList.update\<close> is item
  assignment (the key keeps its place, a new key goes last). \<open>json.dump\<close> and
  \<open>json.load\<close> belong to the standard library and are parameters (\<open>json_load\<close> gives
  \<open>None\<close> when it raises).
\<close>

datatype json =
    JNull
  | JBool bool
  | JInt int
  | JFloat real
  | JStr string
  | JList "json list"
  | JObj "(string \<times> json) list"

type_synonym pydict = "(string \<times> json) list"

text \<open>The literal \<open>default_config\<close> of \<open>load_config\<close>.\<close>

definition default_config :: pydict where
  "default_config =
     [(''thresholds'', JObj [(''cpu'', JFloat 80), (''memory'', JFloat 85),
                            (''disk'', JFloat 90), (''swap'', JFloat 80)]),
      (''check_interval'', JInt 60),
      (''alert_cooldown'', JInt 300),
      (''email'', JObj [(''enabled'', JBool False), (''smtp_server'', JStr ''smtp.gmail.com''),
                       (''smtp_port'', JInt 587), (''from'', JStr ''alerts@example.com''),
                       (''to'', JList [JStr ''admin@example.com'']), (''password'', JStr [])]),
      (''webhook'', JObj [(''enabled'', JBool False), (''url'', JStr []),
                         (''method'', JStr ''POST'')]),
      (''log_file'', JStr ''alerts.log''),
      (''console_alerts'', JBool True)]"

text \<open>The literal \<open>example_config\<close> of \<open>create_example_config\<close>.\<close>

definition example_config :: pydict where
  "example_config =
     [(''thresholds'', JObj [(''cpu'', JFloat 80), (''memory'', JFloat 85),
                            (''disk'', JFloat 90), (''swap'', JFloat 80)]),
      (''check_interval'', JInt 60),
      (''alert_cooldown'', JInt 300),
      (''email'', JObj [(''enabled'', JBool False), (''smtp_server'', JStr ''smtp.gmail.com''),
                       (''smtp_port'', JInt 587), (''from'', JStr ''alerts@example.com''),
                       (''to'', JList [JStr ''admin@example.com'']),
                       (''password'', JStr ''votre_mot_de_passe'')]),
      (''webhook'', JObj [(''enabled'', JBool False),
                         (''url'', JStr ''https://hooks.slack.com/services/YOUR/WEBHOOK/URL''),
                         (''method'', JStr ''POST'')]),
      (''log_file'', JStr ''alerts.log''),
      (''console_alerts'', JBool True)]"

subsection \<open>dict.update\<close>

text \<open>
  \<open>default_config.update(user_config)\<close>, for whatever \<open>json.load\<close> returned. A dict is
  merged key by key. Any other iterable is read as a sequence of pairs, each inserted
  as soon as it is read, so that an exception keeps the pairs before it; a number, a
  boolean or null is not iterable. A key that is not a string (a number, a boolean,
  null) never meets a string key: it is skipped here, every key the program reads
  being a string. The boolean of the result is False when the call raises.
\<close>

definition dict_keys :: "pydict \<Rightarrow> string list" where
  "dict_keys kvs = rev (remdups (rev (map fst kvs)))"

fun pair_of :: "json \<Rightarrow> (json \<times> json) option" where
  "pair_of (JList [k, v]) = Some (k, v)"
| "pair_of (JStr [a, b]) = Some (JStr [a], JStr [b])"
| "pair_of (JObj kvs) =
     (case dict_keys kvs of [k1, k2] \<Rightarrow> Some (JStr k1, JStr k2) | _ \<Rightarrow> None)"
| "pair_of _ = None"

fun update_pairs :: "pydict \<Rightarrow> json list \<Rightarrow> pydict \<times> bool" where
  "update_pairs d [] = (d, True)"
| "update_pairs d (x # xs) =
     (case pair_of x of
        None \<Rightarrow> (d, False)
      | Some (k, v) \<Rightarrow>
          (case k of
             JStr key \<Rightarrow> update_pairs (AList.update key v d) xs
           | JList _ \<Rightarrow> (d, False)
           | JObj _ \<Rightarrow> (d, False)
           | _ \<Rightarrow> update_pairs d xs))"

definition dict_update :: "pydict \<Rightarrow> json \<Rightarrow> pydict \<times> bool" where
  "dict_update d j =
     (case j of
        JObj kvs \<Rightarrow> (fold (\<lambda>(k, v) acc. AList.update k v acc) kvs d, True)
      | JList xs \<Rightarrow> update_pairs d xs
      | JStr cs \<Rightarrow> (d, cs = [])
      | _ \<Rightarrow> (d, False))"

subsection \<open>The file system and the two functions\<close>

text \<open>
  A path holds a regular file with its text, or something that exists and cannot be
  opened (a directory, a file without permission). \<open>creatable\<close> tells whether opening
  a path for writing and dumping the example succeed.
\<close>

datatype node = Regular string | Unopenable

datatype cfg_line =
    CfgLoaded string
  | CfgReadError string
  | CfgNotFound string
  | CfgExampleCreated string
  | CfgCreateError

record cfg_env =
  json_dump :: "json \<Rightarrow> string"
  json_load :: "string \<Rightarrow> json option"
  creatable :: "string \<Rightarrow> bool"

record host =
  files :: "string \<rightharpoonup> node"
  printed :: "cfg_line list"

definition say :: "cfg_line \<Rightarrow> host \<Rightarrow> host" where
  "say l h = h\<lparr>printed := printed h @ [l]\<rparr>"

definition create_example_config :: "cfg_env \<Rightarrow> string \<Rightarrow> host \<Rightarrow> host" where
  "create_example_config fe config_file h =
     (if creatable fe config_file
      then say (CfgExampleCreated config_file)
             (h\<lparr>files := (files h)(config_file \<mapsto> Regular (json_dump fe (JObj example_config)))\<rparr>)
      else say CfgCreateError h)"

definition load_config :: "cfg_env \<Rightarrow> string \<Rightarrow> host \<Rightarrow> pydict \<times> host" where
  "load_config fe config_file h =
     (case files h config_file of
        Some nd \<Rightarrow>
          (case nd of
             Unopenable \<Rightarrow> (default_config, say (CfgReadError config_file) h)
           | Regular txt \<Rightarrow>
               (case json_load fe txt of
                  None \<Rightarrow> (default_config, say (CfgReadError config_file) h)
                | Some user_config \<Rightarrow>
                    (let (merged, ok) = dict_update default_config user_config
                     in if ok then (merged, say (CfgLoaded config_file) h)
                        else (merged, say (CfgReadError config_file) h))))
      | None \<Rightarrow>
          (default_config, create_example_config fe config_file (say (CfgNotFound config_file) h)))"

text \<open>Reading \<open>config[key]\<close> and \<open>config[key1][key2]\<close> in a loaded configuration.\<close>

definition lookup :: "pydict \<Rightarrow> string \<Rightarrow> json option" where
  "lookup d k = map_of d k"

definition lookup2 :: "pydict \<Rightarrow> string \<Rightarrow> string \<Rightarrow> json option" where
  "lookup2 d k1 k2 = (case map_of d k1 of Some (JObj inner) \<Rightarrow> map_of inner k2 | _ \<Rightarrow> None)"

section \<open>A concrete system\<close>

text \<open>
  The state \<open>__init__\<close> builds around a configuration (empty history, no time stamp),
  the default configuration of the source as a typed record, and an environment in which
  every delivery succeeds, the CPU reads 81 percent, the host has no swap and every
  service probe answers \<open>unknown\<close>. The instances below are evaluated on them.
\<close>

definition demo_config :: config where
  "demo_config =
     \<lparr>cfg_thresholds = \<lparr>cpu = 80, memory = 85, disk = 90, swap = 80\<rparr>,
      check_interval = Some 60,
      alert_cooldown = Some 300,
      email = \<lparr>email_enabled = False, smtp_server = ''smtp.gmail.com'', smtp_port = 587,
               email_from = ''alerts@example.com'', email_to = [''admin@example.com''],
               email_password = []\<rparr>,
      webhook = \<lparr>webhook_enabled = False, webhook_url = [], webhook_method = ''POST''\<rparr>,
      cfg_log_file = Some ''alerts.log'',
      console_alerts = True\<rparr>"

definition init_sys :: "config \<Rightarrow> sys" where
  "init_sys cfg =
     \<lparr>config = cfg, alert_history = [], last_alert_time = Map.empty,
      log_file = (case cfg_log_file cfg of None \<Rightarrow> ''alerts.log'' | Some p \<Rightarrow> p),
      tick = 0, effects = []\<rparr>"

definition demo_env :: env where
  "demo_env =
     \<lparr>time_time = (\<lambda>n. 1000 + real n),
      strftime_now = (\<lambda>n. ''2024-01-01 12:00:00''),
      hostname = (\<lambda>n. ''monitor''),
      open_append = (\<lambda>n. True),
      smtp_session = (\<lambda>n. None),
      import_requests = (\<lambda>n. True),
      requests_post = (\<lambda>n. Some 200),
      cpu_percent = (\<lambda>n. 81),
      virtual_memory_percent = (\<lambda>n. 50),
      disk_usage_percent = (\<lambda>n. 50),
      swap_memory = (\<lambda>n. (0, 95)),
      systemctl_is_active = (\<lambda>n svc. Some ''unknown''),
      console_write = (\<lambda>n. True)\<rparr>"

text \<open>The same configuration with the email and webhook channels enabled.\<close>

definition alerting_config :: config where
  "alerting_config =
     demo_config\<lparr>email := (email demo_config)\<lparr>email_enabled := True\<rparr>,
                 webhook := (webhook demo_config)\<lparr>webhook_enabled := True,
                              webhook_url := ''https://hooks.example/T''\<rparr>\<rparr>"

text \<open>
  A host without files on which every file can be created, and a stand-in for the JSON
  library that dumps the example configuration to one text and loads it back.
\<close>

definition demo_cfg_env :: cfg_env where
  "demo_cfg_env =
     \<lparr>json_dump = (\<lambda>j. if j = JObj example_config then ''example.json'' else ''other.json''),
      json_load = (\<lambda>t. if t = ''example.json'' then Some (JObj example_config) else None),
      creatable = (\<lambda>p. True)\<rparr>"

definition empty_host :: host where
  "empty_host = \<lparr>files = Map.empty, printed = []\<rparr>"

text \<open>A history that holds one hundred entries.\<close>

definition full_history :: "alert_record list" where
  "full_history = map (\<lambda>i. \<lparr>r_timestamp = ''2024-01-01 11:00:00'', r_type = ''DISK'',
      r_message = DiskFull (real i) 90, r_level = ''CRITICAL''\<rparr>) [1..<101]"

section \<open>Properties\<close>

subsection \<open>Auxiliary facts\<close>

lemma slice_last_short: "length xs \<le> n \<Longrightarrow> slice_last n xs = xs"
  by (simp add: slice_last_def)

lemma slice_last_length: "length (slice_last n xs) \<le> n"
  by (simp add: slice_last_def)

lemma slice_last_append: "slice_last n (slice_last n xs @ ys) = slice_last n (xs @ ys)"
  by (cases "length xs \<le> n") (auto simp: slice_last_def add.commute)

lemma set_slice_last: "set (slice_last n xs) \<subseteq> set xs"
  by (simp add: slice_last_def set_drop_subset)

lemma slice_last_keeps: "length zs \<le> n \<Longrightarrow> set zs \<subseteq> set (slice_last n (ys @ zs))"
  by (simp add: slice_last_def)

lemma log_alert_fields:
  "config (log_alert e k m l s) = config s"
  "last_alert_time (log_alert e k m l s) = last_alert_time s"
  "log_file (log_alert e k m l s) = log_file s"
  "tick (log_alert e k m l s) = tick s + 2"
  "effects (log_alert e k m l s) = effects s @ [log_effect e (tick s) (log_file s) l k m]"
  "alert_history (log_alert e k m l s) =
     slice_last 100 (alert_history s @
       [\<lparr>r_timestamp = strftime_now e (tick s), r_type = k, r_message = m, r_level = l\<rparr>])"
  by (simp_all add: log_alert_def ask_def emit_def Let_def slice_last_def log_effect_def)

lemma send_email_alert_fields:
  "config (snd (send_email_alert e subj msg s)) = config s"
  "last_alert_time (snd (send_email_alert e subj msg s)) = last_alert_time s"
  "log_file (snd (send_email_alert e subj msg s)) = log_file s"
  by (simp_all add: send_email_alert_def ask_def emit_def Let_def log_alert_fields split: option.splits)

lemma send_email_alert_enabled:
  assumes "email_enabled (email (config s))"
  shows "tick (snd (send_email_alert e subj msg s)) = tick s + 5"
    and "fst (send_email_alert e subj msg s) = (smtp_session e (tick s + 2) = None)"
    and "effects (snd (send_email_alert e subj msg s)) =
           effects s @ email_effects e (tick s) (log_file s) subj msg"
  using assms
  by (simp_all add: send_email_alert_def ask_def emit_def Let_def log_alert_fields
      email_effects_def eval_nat_numeral split: option.splits)

lemma channel_record_email: "channel_record (email_record e n subj)"
  by (simp add: channel_record_def email_record_def split: option.splits)

lemma channel_record_webhook: "r \<in> set (webhook_records e n) \<Longrightarrow> channel_record r"
  by (simp add: channel_record_def webhook_records_def split: if_splits)

lemma length_webhook_records: "length (webhook_records e n) \<le> 1"
  by (simp add: webhook_records_def)

lemma send_email_alert_history:
  "email_enabled (email (config s)) \<Longrightarrow>
   alert_history (snd (send_email_alert e subj msg s)) =
     slice_last 100 (alert_history s @ [email_record e (tick s) subj])"
  by (simp add: send_email_alert_def ask_def emit_def Let_def log_alert_fields
      email_record_def eval_nat_numeral split: option.splits)

lemma send_webhook_alert_fields:
  "config (snd (send_webhook_alert e msg s)) = config s"
  "last_alert_time (snd (send_webhook_alert e msg s)) = last_alert_time s"
  "log_file (snd (send_webhook_alert e msg s)) = log_file s"
  by (simp_all add: send_webhook_alert_def ask_def emit_def Let_def log_alert_fields
      split: option.splits)

lemma send_webhook_alert_enabled:
  assumes "webhook_enabled (webhook (config s))"
  shows "effects (snd (send_webhook_alert e msg s)) =
           effects s @ webhook_effects e (tick s) (webhook_url (webhook (config s))) (log_file s) msg"
    and "fst (send_webhook_alert e msg s) =
           (import_requests e (tick s) \<and> requests_post e (tick s + 1) = Some 200)"
    and "alert_history (snd (send_webhook_alert e msg s)) =
           (if webhook_records e (tick s) = [] then alert_history s
            else slice_last 100 (alert_history s @ webhook_records e (tick s)))"
  using assms
  by (simp_all add: send_webhook_alert_def ask_def emit_def Let_def log_alert_fields
      webhook_effects_def webhook_records_def eval_nat_numeral split: option.splits)

lemma send_webhook_alert_history:
  assumes "webhook_enabled (webhook (config s))" "alert_history s = slice_last 100 h"
  shows "alert_history (snd (send_webhook_alert e msg s)) =
           slice_last 100 (h @ webhook_records e (tick s))"
  using assms by (simp add: send_webhook_alert_enabled slice_last_append)

lemma dispatch_fields:
  "config (dispatch e key k l subj msg s) = config s"
  "log_file (dispatch e key k l subj msg s) = log_file s"
  "last_alert_time (dispatch e key k l subj msg s) =
     (last_alert_time s)(key \<mapsto> time_time e (tick (dispatch e key k l subj msg s) - 1))"
  by (simp_all add: dispatch_def ask_def emit_def Let_def log_alert_fields
      send_email_alert_fields send_webhook_alert_fields)

lemma dispatch_history:
  "alert_history (dispatch e key k l subj msg s) =
     slice_last 100 (alert_history s @ alert_records e s k l subj msg)"
proof -
  define s3 where "s3 = (if console_alerts (config s) then emit (Print (PAlert msg)) s else s)"
  define s4 where "s4 = log_alert e k msg l s3"
  define s5 where "s5 = (if email_enabled (email (config s4))
                then snd (send_email_alert e subj msg s4) else s4)"
  define s6 where "s6 = (if webhook_enabled (webhook (config s5))
                then snd (send_webhook_alert e msg s5) else s5)"
  define a where "a = \<lparr>r_timestamp = strftime_now e (tick s), r_type = k, r_message = msg, r_level = l\<rparr>"
  have s3: "tick s3 = tick s" "alert_history s3 = alert_history s" "config s3 = config s"
    by (simp_all add: s3_def emit_def)
  have s4: "tick s4 = tick s + 2" "config s4 = config s"
    "alert_history s4 = slice_last 100 (alert_history s @ [a])"
    by (simp_all add: s4_def log_alert_fields s3 a_def)
  have s5: "config s5 = config s"
    "tick s5 = tick s + (if email_enabled (email (config s)) then 7 else 2)"
    "alert_history s5 = slice_last 100 (alert_history s @ a #
       (if email_enabled (email (config s)) then [email_record e (tick s + 2) subj] else []))"
    by (simp_all add: s5_def s4 send_email_alert_fields send_email_alert_enabled
        send_email_alert_history slice_last_append)
  have s6: "alert_history s6 = slice_last 100 (alert_history s @ alert_records e s k l subj msg)"
  proof (cases "webhook_enabled (webhook (config s))")
    case True
    then have "alert_history s6 = alert_history (snd (send_webhook_alert e msg s5))"
      by (simp add: s6_def s5)
    also have "\<dots> = slice_last 100 ((alert_history s @ a #
       (if email_enabled (email (config s)) then [email_record e (tick s + 2) subj] else []))
          @ webhook_records e (tick s5))"
      by (rule send_webhook_alert_history) (simp_all add: s5 True)
    finally show ?thesis
      by (simp add: alert_records_def a_def True s5)
  next
    case False
    then show ?thesis
      by (simp add: s6_def s5 alert_records_def a_def)
  qed
  have "alert_history (dispatch e key k l subj msg s) = alert_history s6"
    by (simp add: dispatch_def Let_def ask_def s3_def s4_def s5_def s6_def)
  then show ?thesis
    by (simp add: s6)
qed


lemma can_send_alert_state:
  "snd (can_send_alert e k s) =
     (if last_alert_time s k = None then s else s\<lparr>tick := Suc (tick s)\<rparr>)"
  by (simp add: can_send_alert_def ask_def Let_def split: option.splits)

lemma can_send_alert_fields:
  "config (snd (can_send_alert e k s)) = config s"
  "alert_history (snd (can_send_alert e k s)) = alert_history s"
  "last_alert_time (snd (can_send_alert e k s)) = last_alert_time s"
  "log_file (snd (can_send_alert e k s)) = log_file s"
  "effects (snd (can_send_alert e k s)) = effects s"
  by (simp_all add: can_send_alert_state)

lemma check_cpu_dispatch:
  "check_cpu e s =
     (let r = cpu_percent e (tick s); t = cpu (cfg_thresholds (config s));
          s1 = s\<lparr>tick := Suc (tick s)\<rparr>
      in if r > t then
           (if fst (can_send_alert e ''CPU'' s1)
            then (True, dispatch e ''CPU'' ''CPU'' ''WARNING'' SubjCpu (CpuHigh r t)
                    (snd (can_send_alert e ''CPU'' s1)))
            else (False, snd (can_send_alert e ''CPU'' s1)))
         else (False, s1))"
  by (simp add: check_cpu_def dispatch_def ask_def Let_def split: prod.splits)

lemma check_memory_dispatch:
  "check_memory e s =
     (let r = virtual_memory_percent e (tick s); t = memory (cfg_thresholds (config s));
          s1 = s\<lparr>tick := Suc (tick s)\<rparr>
      in if r > t then
           (if fst (can_send_alert e ''MEMORY'' s1)
            then (True, dispatch e ''MEMORY'' ''MEMORY'' ''WARNING'' SubjMemory (MemoryHigh r t)
                    (snd (can_send_alert e ''MEMORY'' s1)))
            else (False, snd (can_send_alert e ''MEMORY'' s1)))
         else (False, s1))"
  by (simp add: check_memory_def dispatch_def ask_def Let_def split: prod.splits)

lemma check_disk_dispatch:
  "check_disk e s =
     (let r = disk_usage_percent e (tick s); t = disk (cfg_thresholds (config s));
          s1 = s\<lparr>tick := Suc (tick s)\<rparr>
      in if r > t then
           (if fst (can_send_alert e ''DISK'' s1)
            then (True, dispatch e ''DISK'' ''DISK'' ''CRITICAL'' SubjDisk (DiskFull r t)
                    (snd (can_send_alert e ''DISK'' s1)))
            else (False, snd (can_send_alert e ''DISK'' s1)))
         else (False, s1))"
  by (simp add: check_disk_def dispatch_def ask_def Let_def split: prod.splits)

lemma check_swap_dispatch:
  "check_swap e s =
     (let total = fst (swap_memory e (tick s)); r = snd (swap_memory e (tick s));
          t = swap (cfg_thresholds (config s));
          s1 = s\<lparr>tick := Suc (tick s)\<rparr>
      in if total = 0 then (False, s1)
         else if r > t then
           (if fst (can_send_alert e ''SWAP'' s1)
            then (True, dispatch e ''SWAP'' ''SWAP'' ''WARNING'' SubjSwap (SwapHigh r t)
                    (snd (can_send_alert e ''SWAP'' s1)))
            else (False, snd (can_send_alert e ''SWAP'' s1)))
         else (False, s1))"
  by (simp add: check_swap_def dispatch_def ask_def Let_def split: prod.splits)

lemma check_service_down_dispatch:
  "check_service_down e svc s =
     (let s1 = s\<lparr>tick := Suc (tick s)\<rparr>
      in case systemctl_is_active e (tick s) svc of
           None \<Rightarrow> (False, emit (Print (PServiceCheckError svc)) s1)
         | Some out \<Rightarrow>
             if strip out \<noteq> ''active'' then
               (if fst (can_send_alert e (''SERVICE_'' @ svc) s1)
                then (True, dispatch e (''SERVICE_'' @ svc) ''SERVICE'' ''CRITICAL''
                        (SubjService svc) (ServiceStopped svc)
                        (snd (can_send_alert e (''SERVICE_'' @ svc) s1)))
                else (False, snd (can_send_alert e (''SERVICE_'' @ svc) s1)))
             else (False, s1))"
  by (simp add: check_service_down_def dispatch_def ask_def Let_def split: prod.splits option.splits)

lemma check_cpu_frame:
  "last_alert_time (snd (check_cpu e s)) =
     (if fst (check_cpu e s)
      then (last_alert_time s)(''CPU'' \<mapsto> time_time e (tick (snd (check_cpu e s)) - 1))
      else last_alert_time s) \<and>
   (\<not> fst (check_cpu e s) \<longrightarrow> alert_history (snd (check_cpu e s)) = alert_history s \<and>
      effects (snd (check_cpu e s)) = effects s)"
proof -
  define s1 where "s1 = s\<lparr>tick := Suc (tick s)\<rparr>"
  define s2 where "s2 = snd (can_send_alert e ''CPU'' s1)"
  have s2: "last_alert_time s2 = last_alert_time s" "alert_history s2 = alert_history s"
    "effects s2 = effects s"
    by (simp_all add: s2_def s1_def can_send_alert_fields)
  show ?thesis
    unfolding check_cpu_dispatch Let_def s1_def [symmetric] s2_def [symmetric]
    using s2 dispatch_fields(3) [of e "''CPU''" _ _ _ _ s2]
    by (simp add: s1_def)
qed

lemma check_memory_frame:
  "last_alert_time (snd (check_memory e s)) =
     (if fst (check_memory e s)
      then (last_alert_time s)(''MEMORY'' \<mapsto> time_time e (tick (snd (check_memory e s)) - 1))
      else last_alert_time s) \<and>
   (\<not> fst (check_memory e s) \<longrightarrow> alert_history (snd (check_memory e s)) = alert_history s \<and>
      effects (snd (check_memory e s)) = effects s)"
proof -
  define s1 where "s1 = s\<lparr>tick := Suc (tick s)\<rparr>"
  define s2 where "s2 = snd (can_send_alert e ''MEMORY'' s1)"
  have s2: "last_alert_time s2 = last_alert_time s" "alert_history s2 = alert_history s"
    "effects s2 = effects s"
    by (simp_all add: s2_def s1_def can_send_alert_fields)
  show ?thesis
    unfolding check_memory_dispatch Let_def s1_def [symmetric] s2_def [symmetric]
    using s2 dispatch_fields(3) [of e "''MEMORY''" _ _ _ _ s2]
    by (simp add: s1_def)
qed

lemma check_disk_frame:
  "last_alert_time (snd (check_disk e s)) =
     (if fst (check_disk e s)
      then (last_alert_time s)(''DISK'' \<mapsto> time_time e (tick (snd (check_disk e s)) - 1))
      else last_alert_time s) \<and>
   (\<not> fst (check_disk e s) \<longrightarrow> alert_history (snd (check_disk e s)) = alert_history s \<and>
      effects (snd (check_disk e s)) = effects s)"
proof -
  define s1 where "s1 = s\<lparr>tick := Suc (tick s)\<rparr>"
  define s2 where "s2 = snd (can_send_alert e ''DISK'' s1)"
  have s2: "last_alert_time s2 = last_alert_time s" "alert_history s2 = alert_history s"
    "effects s2 = effects s"
    by (simp_all add: s2_def s1_def can_send_alert_fields)
  show ?thesis
    unfolding check_disk_dispatch Let_def s1_def [symmetric] s2_def [symmetric]
    using s2 dispatch_fields(3) [of e "''DISK''" _ _ _ _ s2]
    by (simp add: s1_def)
qed

lemma check_swap_frame:
  "last_alert_time (snd (check_swap e s)) =
     (if fst (check_swap e s)
      then (last_alert_time s)(''SWAP'' \<mapsto> time_time e (tick (snd (check_swap e s)) - 1))
      else last_alert_time s) \<and>
   (\<not> fst (check_swap e s) \<longrightarrow> alert_history (snd (check_swap e s)) = alert_history s \<and>
      effects (snd (check_swap e s)) = effects s)"
proof -
  define s1 where "s1 = s\<lparr>tick := Suc (tick s)\<rparr>"
  define s2 where "s2 = snd (can_send_alert e ''SWAP'' s1)"
  have s2: "last_alert_time s2 = last_alert_time s" "alert_history s2 = alert_history s"
    "effects s2 = effects s"
    by (simp_all add: s2_def s1_def can_send_alert_fields)
  show ?thesis
    unfolding check_swap_dispatch Let_def s1_def [symmetric] s2_def [symmetric]
    using s2 dispatch_fields(3) [of e "''SWAP''" _ _ _ _ s2]
    by (simp add: s1_def)
qed

lemma check_service_down_frame:
  "last_alert_time (snd (check_service_down e svc s)) =
     (if fst (check_service_down e svc s)
      then (last_alert_time s)(''SERVICE_'' @ svc \<mapsto>
             time_time e (tick (snd (check_service_down e svc s)) - 1))
      else last_alert_time s) \<and>
   (\<not> fst (check_service_down e svc s) \<longrightarrow>
      alert_history (snd (check_service_down e svc s)) = alert_history s \<and>
      effects (snd (check_service_down e svc s)) =
        (if systemctl_is_active e (tick s) svc = None
         then effects s @ [Print (PServiceCheckError svc)] else effects s))"
proof -
  define s1 where "s1 = s\<lparr>tick := Suc (tick s)\<rparr>"
  define s2 where "s2 = snd (can_send_alert e (''SERVICE_'' @ svc) s1)"
  have s2: "last_alert_time s2 = last_alert_time s" "alert_history s2 = alert_history s"
    "effects s2 = effects s"
    by (simp_all add: s2_def s1_def can_send_alert_fields)
  show ?thesis
    unfolding check_service_down_dispatch Let_def s1_def [symmetric] s2_def [symmetric]
    using s2 dispatch_fields(3) [of e "''SERVICE_'' @ svc" _ _ _ _ s2]
    by (simp add: s1_def emit_def split: option.splits)
qed

lemmas demo_simps = demo_env_def demo_config_def alerting_config_def init_sys_def

lemma can_send_alert_smtp:
  "can_send_alert (e\<lparr>smtp_session := f\<rparr>) k s = can_send_alert e k s"
  by (simp add: can_send_alert_def ask_def Let_def split: option.splits)




lemma check_cpu_fired:
  "fst (check_cpu e s) \<Longrightarrow>
   check_cpu (e\<lparr>smtp_session := f\<rparr>) s =
     (True, dispatch (e\<lparr>smtp_session := f\<rparr>) ''CPU'' ''CPU'' ''WARNING'' SubjCpu
        (CpuHigh (cpu_percent e (tick s)) (cpu (cfg_thresholds (config s))))
        (snd (can_send_alert e ''CPU'' (s\<lparr>tick := Suc (tick s)\<rparr>))))"
  by (simp add: check_cpu_dispatch Let_def can_send_alert_smtp split: if_splits)

lemma check_memory_fired:
  "fst (check_memory e s) \<Longrightarrow>
   check_memory (e\<lparr>smtp_session := f\<rparr>) s =
     (True, dispatch (e\<lparr>smtp_session := f\<rparr>) ''MEMORY'' ''MEMORY'' ''WARNING'' SubjMemory
        (MemoryHigh (virtual_memory_percent e (tick s)) (memory (cfg_thresholds (config s))))
        (snd (can_send_alert e ''MEMORY'' (s\<lparr>tick := Suc (tick s)\<rparr>))))"
  by (simp add: check_memory_dispatch Let_def can_send_alert_smtp split: if_splits)

lemma check_disk_fired:
  "fst (check_disk e s) \<Longrightarrow>
   check_disk (e\<lparr>smtp_session := f\<rparr>) s =
     (True, dispatch (e\<lparr>smtp_session := f\<rparr>) ''DISK'' ''DISK'' ''CRITICAL'' SubjDisk
        (DiskFull (disk_usage_percent e (tick s)) (disk (cfg_thresholds (config s))))
        (snd (can_send_alert e ''DISK'' (s\<lparr>tick := Suc (tick s)\<rparr>))))"
  by (simp add: check_disk_dispatch Let_def can_send_alert_smtp split: if_splits)

lemma check_swap_fired:
  "fst (check_swap e s) \<Longrightarrow>
   check_swap (e\<lparr>smtp_session := f\<rparr>) s =
     (True, dispatch (e\<lparr>smtp_session := f\<rparr>) ''SWAP'' ''SWAP'' ''WARNING'' SubjSwap
        (SwapHigh (snd (swap_memory e (tick s))) (swap (cfg_thresholds (config s))))
        (snd (can_send_alert e ''SWAP'' (s\<lparr>tick := Suc (tick s)\<rparr>))))"
  by (simp add: check_swap_dispatch Let_def can_send_alert_smtp split: if_splits)

lemma check_service_down_fired:
  "fst (check_service_down e svc s) \<Longrightarrow>
   check_service_down (e\<lparr>smtp_session := f\<rparr>) svc s =
     (True, dispatch (e\<lparr>smtp_session := f\<rparr>) (''SERVICE_'' @ svc) ''SERVICE'' ''CRITICAL''
        (SubjService svc) (ServiceStopped svc)
        (snd (can_send_alert e (''SERVICE_'' @ svc) (s\<lparr>tick := Suc (tick s)\<rparr>))))"
  by (auto simp: check_service_down_dispatch Let_def can_send_alert_smtp
      split: if_splits option.splits)


lemma strip_examples:
  "strip ''unknown'' = ''unknown''" "strip ''active'' = ''active''"
  "strip ''active\<newline>'' = ''active''" "strip ''inactive'' = ''inactive''"
  by (simp_all add: strip_def is_space_def)

lemma env_smtp_id: "e\<lparr>smtp_session := smtp_session e\<rparr> = e"
  by simp

lemma alert_records_shape:
  "\<exists>rest. alert_records e s k l subj msg =
      \<lparr>r_timestamp = strftime_now e (tick s), r_type = k, r_message = msg, r_level = l\<rparr> # rest \<and>
      length rest \<le> 2 \<and> (\<forall>r \<in> set rest. channel_record r)"
  using length_webhook_records [of e "tick s + 7"] length_webhook_records [of e "tick s + 2"]
  by (auto simp: alert_records_def channel_record_email dest: channel_record_webhook)

lemma severity_table_append:
  assumes "severity_table h"
    and "(k, l) \<in> {(''CPU'', ''WARNING''), (''MEMORY'', ''WARNING''), (''SWAP'', ''WARNING''),
                  (''DISK'', ''CRITICAL''), (''SERVICE'', ''CRITICAL'')}"
    and "r_type a = k" "r_level a = l"
    and "\<forall>r \<in> set rest. channel_record r"
  shows "severity_table (slice_last 100 (h @ a # rest))"
proof -
  have "severity_table (h @ a # rest)"
    using assms unfolding severity_table_def channel_record_def
    by (auto simp: Ball_def)
  then show ?thesis
    using set_slice_last [of 100 "h @ a # rest"]
    unfolding severity_table_def by blast
qed

lemma severity_via_dispatch:
  assumes run: "fst (check e s) \<Longrightarrow> check e s = (True, dispatch e key k l subj msg s2)"
    and quiet: "\<not> fst (check e s) \<Longrightarrow> alert_history (snd (check e s)) = alert_history s"
    and s2: "alert_history s2 = alert_history s"
    and kl: "(k, l) \<in> {(''CPU'', ''WARNING''), (''MEMORY'', ''WARNING''), (''SWAP'', ''WARNING''),
                  (''DISK'', ''CRITICAL''), (''SERVICE'', ''CRITICAL'')}"
  shows "(fst (check e s) \<longrightarrow>
           (\<exists>stamp msg rest.
              alert_history (snd (check e s)) =
                slice_last 100 (alert_history s @
                  \<lparr>r_timestamp = stamp, r_type = k, r_message = msg, r_level = l\<rparr> # rest) \<and>
              length rest \<le> 2 \<and> (\<forall>r \<in> set rest. channel_record r) \<and>
              \<lparr>r_timestamp = stamp, r_type = k, r_message = msg, r_level = l\<rparr>
                \<in> set (alert_history (snd (check e s))))) \<and>
         (\<not> fst (check e s) \<longrightarrow> alert_history (snd (check e s)) = alert_history s) \<and>
         (severity_table (alert_history s) \<longrightarrow> severity_table (alert_history (snd (check e s))))"
proof (cases "fst (check e s)")
  case False
  then show ?thesis by (simp add: quiet)
next
  case True
  obtain rest where rest: "alert_records e s2 k l subj msg =
      \<lparr>r_timestamp = strftime_now e (tick s2), r_type = k, r_message = msg, r_level = l\<rparr> # rest"
    "length rest \<le> 2" "\<forall>r \<in> set rest. channel_record r"
    using alert_records_shape [of e s2 k l subj msg] by blast
  define a where "a = \<lparr>r_timestamp = strftime_now e (tick s2), r_type = k, r_message = msg, r_level = l\<rparr>"
  have h: "alert_history (snd (check e s)) = slice_last 100 (alert_history s @ a # rest)"
    by (simp add: run [OF True] dispatch_history rest s2 a_def)
  have "set (a # rest) \<subseteq> set (slice_last 100 (alert_history s @ a # rest))"
    by (rule slice_last_keeps) (use rest(2) in simp)
  then have mem: "a \<in> set (alert_history (snd (check e s)))"
    by (simp add: h)
  have sev: "severity_table (alert_history s) \<Longrightarrow> severity_table (alert_history (snd (check e s)))"
    unfolding h by (rule severity_table_append [OF _ kl]) (simp_all add: a_def rest(3))
  from True h rest(2,3) mem sev show ?thesis
    unfolding a_def by blast
qed

lemma kinds_in_table:
  "(''CPU'', ''WARNING'') \<in> {(''CPU'', ''WARNING''), (''MEMORY'', ''WARNING''), (''SWAP'', ''WARNING''),
                  (''DISK'', ''CRITICAL''), (''SERVICE'', ''CRITICAL'')}"
  "(''MEMORY'', ''WARNING'') \<in> {(''CPU'', ''WARNING''), (''MEMORY'', ''WARNING''), (''SWAP'', ''WARNING''),
                  (''DISK'', ''CRITICAL''), (''SERVICE'', ''CRITICAL'')}"
  "(''SWAP'', ''WARNING'') \<in> {(''CPU'', ''WARNING''), (''MEMORY'', ''WARNING''), (''SWAP'', ''WARNING''),
                  (''DISK'', ''CRITICAL''), (''SERVICE'', ''CRITICAL'')}"
  "(''DISK'', ''CRITICAL'') \<in> {(''CPU'', ''WARNING''), (''MEMORY'', ''WARNING''), (''SWAP'', ''WARNING''),
                  (''DISK'', ''CRITICAL''), (''SERVICE'', ''CRITICAL'')}"
  "(''SERVICE'', ''CRITICAL'') \<in> {(''CPU'', ''WARNING''), (''MEMORY'', ''WARNING''), (''SWAP'', ''WARNING''),
                  (''DISK'', ''CRITICAL''), (''SERVICE'', ''CRITICAL'')}"
  by simp_all

lemma update_default_with_example:
  "dict_update default_config (JObj example_config) = (example_config, True)"
  by (simp add: dict_update_def default_config_def example_config_def)

lemma load_config_absent:
  "files h path = None \<Longrightarrow>
   load_config fe path h = (default_config, create_example_config fe path (say (CfgNotFound path) h))"
  by (simp add: load_config_def)

lemma load_config_generated:
  assumes "files h path = Some (Regular (json_dump fe (JObj example_config)))"
    and "json_load fe (json_dump fe (JObj example_config)) = Some (JObj example_config)"
  shows "load_config fe path h = (example_config, say (CfgLoaded path) h)"
  using assms by (simp add: load_config_def update_default_with_example)

subsection \<open>C1: the cooldown check\<close>

text \<open>
  C1. \<open>can_send_alert\<close> answers True exactly when no time stamp is recorded for the
  kind, or the difference between the clock and the recorded stamp is at least the
  cooldown window. The window is the one value \<open>alert_cooldown\<close> of the configuration
  (300 when absent), whatever the kind. A difference equal to the window permits firing,
  a smaller one refuses. Recording a stamp for another kind does not change the answer.
  The statement is about the difference the source computes and compares.
\<close>

theorem can_send_alert_cooldown:
  "(fst (can_send_alert e k s) \<longleftrightarrow>
      last_alert_time s k = None \<or>
      (\<exists>t0. last_alert_time s k = Some t0 \<and>
            time_time e (tick s) - t0 \<ge> (case alert_cooldown (config s) of None \<Rightarrow> 300 | Some w \<Rightarrow> w))) \<and>
   (\<forall>t0 w. last_alert_time s k = Some t0 \<and> alert_cooldown (config s) = Some w \<and>
      time_time e (tick s) - t0 = w \<longrightarrow> fst (can_send_alert e k s)) \<and>
   (\<forall>t0 w. last_alert_time s k = Some t0 \<and> alert_cooldown (config s) = Some w \<and>
      time_time e (tick s) - t0 < w \<longrightarrow> \<not> fst (can_send_alert e k s)) \<and>
   (\<forall>k' t. k' \<noteq> k \<longrightarrow>
      fst (can_send_alert e k (s\<lparr>last_alert_time := (last_alert_time s)(k' \<mapsto> t)\<rparr>)) =
      fst (can_send_alert e k s))"
  by (auto simp: can_send_alert_def ask_def Let_def split: option.splits)

theorem can_send_alert_cooldown_witness:
  "fst (can_send_alert (demo_env\<lparr>time_time := \<lambda>n. 1300\<rparr>) ''CPU''
         ((init_sys demo_config)\<lparr>last_alert_time := [''CPU'' \<mapsto> 1000]\<rparr>)) \<and>
   \<not> fst (can_send_alert (demo_env\<lparr>time_time := \<lambda>n. 1299\<rparr>) ''CPU''
         ((init_sys demo_config)\<lparr>last_alert_time := [''CPU'' \<mapsto> 1000]\<rparr>)) \<and>
   fst (can_send_alert (demo_env\<lparr>time_time := \<lambda>n. 1299\<rparr>) ''MEMORY''
         ((init_sys demo_config)\<lparr>last_alert_time := [''CPU'' \<mapsto> 1000]\<rparr>))"
  using can_send_alert_cooldown [of "demo_env\<lparr>time_time := \<lambda>n. 1300\<rparr>" "''CPU''"
      "(init_sys demo_config)\<lparr>last_alert_time := [''CPU'' \<mapsto> 1000]\<rparr>"]
    can_send_alert_cooldown [of "demo_env\<lparr>time_time := \<lambda>n. 1299\<rparr>" "''CPU''"
      "(init_sys demo_config)\<lparr>last_alert_time := [''CPU'' \<mapsto> 1000]\<rparr>"]
    can_send_alert_cooldown [of "demo_env\<lparr>time_time := \<lambda>n. 1299\<rparr>" "''MEMORY''"
      "(init_sys demo_config)\<lparr>last_alert_time := [''CPU'' \<mapsto> 1000]\<rparr>"]
  by (simp add: demo_env_def demo_config_def init_sys_def)

subsection \<open>C2: the threshold comparison is strict\<close>

text \<open>
  C2. Each metric check fires exactly when its reading is strictly greater than the
  configured threshold and the cooldown permits (the swap check also needs a non-zero
  swap capacity); with no earlier CPU alert, \<open>check_cpu\<close> fires iff the reading exceeds
  the threshold. A reading equal to the threshold triggers nothing: the check returns
  False and nothing but the probe has happened.
\<close>

theorem threshold_strict:
  "(fst (check_cpu e s) \<longleftrightarrow>
      cpu_percent e (tick s) > cpu (cfg_thresholds (config s)) \<and>
      fst (can_send_alert e ''CPU'' (s\<lparr>tick := Suc (tick s)\<rparr>))) \<and>
   (fst (check_memory e s) \<longleftrightarrow>
      virtual_memory_percent e (tick s) > memory (cfg_thresholds (config s)) \<and>
      fst (can_send_alert e ''MEMORY'' (s\<lparr>tick := Suc (tick s)\<rparr>))) \<and>
   (fst (check_disk e s) \<longleftrightarrow>
      disk_usage_percent e (tick s) > disk (cfg_thresholds (config s)) \<and>
      fst (can_send_alert e ''DISK'' (s\<lparr>tick := Suc (tick s)\<rparr>))) \<and>
   (fst (check_swap e s) \<longleftrightarrow>
      fst (swap_memory e (tick s)) \<noteq> 0 \<and>
      snd (swap_memory e (tick s)) > swap (cfg_thresholds (config s)) \<and>
      fst (can_send_alert e ''SWAP'' (s\<lparr>tick := Suc (tick s)\<rparr>))) \<and>
   (last_alert_time s ''CPU'' = None \<longrightarrow>
      fst (check_cpu e s) = (cpu_percent e (tick s) > cpu (cfg_thresholds (config s)))) \<and>
   (cpu_percent e (tick s) = cpu (cfg_thresholds (config s)) \<longrightarrow>
      check_cpu e s = (False, s\<lparr>tick := Suc (tick s)\<rparr>)) \<and>
   (virtual_memory_percent e (tick s) = memory (cfg_thresholds (config s)) \<longrightarrow>
      check_memory e s = (False, s\<lparr>tick := Suc (tick s)\<rparr>)) \<and>
   (disk_usage_percent e (tick s) = disk (cfg_thresholds (config s)) \<longrightarrow>
      check_disk e s = (False, s\<lparr>tick := Suc (tick s)\<rparr>)) \<and>
   (snd (swap_memory e (tick s)) = swap (cfg_thresholds (config s)) \<longrightarrow>
      check_swap e s = (False, s\<lparr>tick := Suc (tick s)\<rparr>))"
  by (simp add: check_cpu_dispatch check_memory_dispatch check_disk_dispatch check_swap_dispatch
      Let_def can_send_alert_def)

theorem threshold_strict_witness:
  "fst (check_cpu demo_env (init_sys demo_config)) \<and>
   check_cpu (demo_env\<lparr>cpu_percent := \<lambda>n. 80\<rparr>) (init_sys demo_config) =
     (False, (init_sys demo_config)\<lparr>tick := 1\<rparr>)"
  using threshold_strict [of demo_env "init_sys demo_config"]
    threshold_strict [of "demo_env\<lparr>cpu_percent := \<lambda>n. 80\<rparr>" "init_sys demo_config"]
  by (simp add: demo_env_def demo_config_def init_sys_def can_send_alert_def)

subsection \<open>C3: the time stamp moves only on a dispatched alert\<close>

text \<open>
  C3. For each of the five checks and its cooldown key: the map of time stamps after the
  check is the map before it, except that a check that fired has set its own key to the
  clock value read after the dispatch (the last external call of the check). A check
  that did not fire (a threshold exceeded and suppressed by the cooldown included)
  leaves the map and the history as they were. \<open>can_send_alert\<close> itself changes
  nothing but the count of clock reads, and never the map.
\<close>

theorem cooldown_timestamp_frame:
  assumes "(check, key) \<in> set
     [(check_cpu, ''CPU''), (check_memory, ''MEMORY''), (check_disk, ''DISK''),
      (check_swap, ''SWAP''), (\<lambda>e. check_service_down e svc, ''SERVICE_'' @ svc)]"
  shows "last_alert_time (snd (check e s)) =
           (if fst (check e s)
            then (last_alert_time s)(key \<mapsto> time_time e (tick (snd (check e s)) - 1))
            else last_alert_time s) \<and>
         (\<not> fst (check e s) \<longrightarrow> alert_history (snd (check e s)) = alert_history s) \<and>
         snd (can_send_alert e key s) =
           (if last_alert_time s key = None then s else s\<lparr>tick := Suc (tick s)\<rparr>) \<and>
         last_alert_time (snd (can_send_alert e key s)) = last_alert_time s"
proof -
  have frame: "last_alert_time (snd (can_send_alert e key s)) = last_alert_time s"
    "snd (can_send_alert e key s) =
       (if last_alert_time s key = None then s else s\<lparr>tick := Suc (tick s)\<rparr>)"
    by (simp_all add: can_send_alert_state)
  from assms have "(check = check_cpu \<and> key = ''CPU'') \<or> (check = check_memory \<and> key = ''MEMORY'')
    \<or> (check = check_disk \<and> key = ''DISK'') \<or> (check = check_swap \<and> key = ''SWAP'')
    \<or> (check = (\<lambda>e. check_service_down e svc) \<and> key = ''SERVICE_'' @ svc)"
    by simp
  then have "last_alert_time (snd (check e s)) =
           (if fst (check e s)
            then (last_alert_time s)(key \<mapsto> time_time e (tick (snd (check e s)) - 1))
            else last_alert_time s) \<and>
         (\<not> fst (check e s) \<longrightarrow> alert_history (snd (check e s)) = alert_history s)"
    using check_cpu_frame [of e s] check_memory_frame [of e s] check_disk_frame [of e s]
      check_swap_frame [of e s] check_service_down_frame [of e svc s]
    by (elim disjE conjE) simp_all
  with frame show ?thesis by simp
qed

theorem cooldown_timestamp_frame_witness:
  "(check_cpu, ''CPU'') \<in> set
     [(check_cpu, ''CPU''), (check_memory, ''MEMORY''), (check_disk, ''DISK''),
      (check_swap, ''SWAP''), (\<lambda>e. check_service_down e ''mysql'', ''SERVICE_'' @ ''mysql'')] \<and>
   fst (check_cpu demo_env (init_sys demo_config)) \<and>
   last_alert_time (snd (check_cpu demo_env (init_sys demo_config))) = [''CPU'' \<mapsto> 1003] \<and>
   \<not> fst (check_cpu demo_env ((init_sys demo_config)\<lparr>last_alert_time := [''CPU'' \<mapsto> 990]\<rparr>)) \<and>
   last_alert_time (snd (check_cpu demo_env
       ((init_sys demo_config)\<lparr>last_alert_time := [''CPU'' \<mapsto> 990]\<rparr>))) = [''CPU'' \<mapsto> 990]"
proof -
  have tick: "tick (snd (check_cpu demo_env (init_sys demo_config))) = 4"
    by (simp add: check_cpu_def can_send_alert_def log_alert_def ask_def emit_def Let_def
        demo_env_def demo_config_def init_sys_def)
  have fired: "fst (check_cpu demo_env (init_sys demo_config))"
    by (simp add: check_cpu_def can_send_alert_def log_alert_def ask_def emit_def Let_def
        demo_env_def demo_config_def init_sys_def)
  have quiet: "\<not> fst (check_cpu demo_env
      ((init_sys demo_config)\<lparr>last_alert_time := [''CPU'' \<mapsto> 990]\<rparr>))"
    by (simp add: check_cpu_def can_send_alert_def log_alert_def ask_def emit_def Let_def
        demo_env_def demo_config_def init_sys_def)
  have time: "time_time demo_env 3 = 1003"
    by (simp add: demo_env_def)
  show ?thesis
    using cooldown_timestamp_frame [of check_cpu "''CPU''" "''mysql''" demo_env "init_sys demo_config"]
      cooldown_timestamp_frame [of check_cpu "''CPU''" "''mysql''" demo_env
        "(init_sys demo_config)\<lparr>last_alert_time := [''CPU'' \<mapsto> 990]\<rparr>"]
      tick fired quiet time
    by (simp add: init_sys_def)
qed

subsection \<open>C4: the history keeps the last hundred entries\<close>

text \<open>
  C4. After \<open>log_alert\<close> the history holds at most 100 entries. Below 100 entries
  the new record is appended; at 100 entries the oldest one (the head) is dropped and
  the others keep their order, followed by the new record.
\<close>

theorem log_alert_history_bound:
  "length (alert_history (log_alert e k m l s)) \<le> 100 \<and>
   (length (alert_history s) < 100 \<longrightarrow>
      alert_history (log_alert e k m l s) = alert_history s @
        [\<lparr>r_timestamp = strftime_now e (tick s), r_type = k, r_message = m, r_level = l\<rparr>]) \<and>
   (length (alert_history s) = 100 \<longrightarrow>
      alert_history (log_alert e k m l s) = tl (alert_history s) @
        [\<lparr>r_timestamp = strftime_now e (tick s), r_type = k, r_message = m, r_level = l\<rparr>]) \<and>
   (length (alert_history s) \<ge> 100 \<longrightarrow>
      alert_history (log_alert e k m l s) = drop (length (alert_history s) - 99) (alert_history s) @
        [\<lparr>r_timestamp = strftime_now e (tick s), r_type = k, r_message = m, r_level = l\<rparr>])"
  by (simp add: log_alert_fields slice_last_def drop_Suc Suc_diff_le)

theorem log_alert_history_bound_witness:
  "length full_history = 100 \<and>
   length (alert_history (log_alert demo_env ''CPU'' (CpuHigh 81 80) ''WARNING''
     ((init_sys demo_config)\<lparr>alert_history := full_history\<rparr>))) = 100 \<and>
   alert_history (log_alert demo_env ''CPU'' (CpuHigh 81 80) ''WARNING''
     ((init_sys demo_config)\<lparr>alert_history := full_history\<rparr>)) =
     tl full_history @ [\<lparr>r_timestamp = ''2024-01-01 12:00:00'', r_type = ''CPU'',
        r_message = CpuHigh 81 80, r_level = ''WARNING''\<rparr>]"
proof -
  have len: "length full_history = 100"
    by (simp add: full_history_def)
  show ?thesis
    using log_alert_history_bound [of demo_env "''CPU''" "CpuHigh 81 80" "''WARNING''"
        "(init_sys demo_config)\<lparr>alert_history := full_history\<rparr>"] len
    by (simp add: demo_env_def init_sys_def)
qed

subsection \<open>C6: no swap, no swap alert\<close>

text \<open>
  C6. When the total swap capacity is zero, \<open>check_swap\<close> returns False whatever the
  reported percentage, and the state is the one before the call but for the probe read:
  no effect on the outside world, no history entry, the time stamps untouched.
\<close>

theorem check_swap_no_swap:
  "fst (swap_memory e (tick s)) = 0 \<Longrightarrow> check_swap e s = (False, s\<lparr>tick := Suc (tick s)\<rparr>)"
  by (simp add: check_swap_dispatch Let_def)

theorem check_swap_no_swap_witness:
  "fst (swap_memory demo_env (tick (init_sys demo_config))) = 0 \<and>
   snd (swap_memory demo_env (tick (init_sys demo_config))) > swap (cfg_thresholds demo_config) \<and>
   check_swap demo_env (init_sys demo_config) = (False, (init_sys demo_config)\<lparr>tick := 1\<rparr>)"
  using check_swap_no_swap [of demo_env "init_sys demo_config"]
  by (simp add: demo_env_def demo_config_def init_sys_def)

subsection \<open>C10: a failed log write and the history entry\<close>

lemma log_alert_exc_returns:
  "open_append e (tick s + 1) \<or> console_write e (tick s + 2) \<Longrightarrow>
   log_alert_exc e k m l s = Inr (log_alert e k m l s)"
  by (auto simp: log_alert_exc_def log_alert_def ask_def Let_def)

lemma log_alert_exc_raises:
  "\<not> open_append e (tick s + 1) \<Longrightarrow> \<not> console_write e (tick s + 2) \<Longrightarrow>
   log_alert_exc e k m l s = Inl (PrintRaised, s\<lparr>tick := tick s + 2\<rparr>)"
  by (simp add: log_alert_exc_def ask_def Let_def)

text \<open>
  The history entry can be lost: when the append to the log file fails and the console
  write of the handler fails too, \<open>log_alert\<close> raises, and the history of the object is
  still empty.
\<close>

theorem log_alert_entry_lost_counterexample:
  "\<not> open_append (demo_env\<lparr>open_append := \<lambda>n. False, console_write := \<lambda>n. False\<rparr>)
       (tick (init_sys demo_config) + 1) \<and>
   log_alert_exc (demo_env\<lparr>open_append := \<lambda>n. False, console_write := \<lambda>n. False\<rparr>)
       ''CPU'' (CpuHigh 81 80) ''WARNING'' (init_sys demo_config) =
     Inl (PrintRaised, (init_sys demo_config)\<lparr>tick := 2\<rparr>) \<and>
   alert_history ((init_sys demo_config)\<lparr>tick := 2\<rparr>) = []"
  by (simp add: log_alert_exc_def ask_def Let_def demo_env_def init_sys_def)

text \<open>
  C10 (amended). When the append to the log file fails and the handler's report of the
  error reaches the console, \<open>log_alert\<close> returns normally and the history has received
  the new record: the record is its last entry, the only effect is the printed error,
  and the history is the one the call leaves after a successful write.
\<close>

theorem log_alert_history_despite_write_failure:
  assumes "\<not> open_append e (tick s + 1)"
    and "console_write e (tick s + 2)"
  shows "\<exists>s'. log_alert_exc e k m l s = Inr s' \<and>
     alert_history s' = slice_last 100 (alert_history s @
        [\<lparr>r_timestamp = strftime_now e (tick s), r_type = k, r_message = m, r_level = l\<rparr>]) \<and>
     \<lparr>r_timestamp = strftime_now e (tick s), r_type = k, r_message = m, r_level = l\<rparr>
        \<in> set (alert_history s') \<and>
     last (alert_history s') =
        \<lparr>r_timestamp = strftime_now e (tick s), r_type = k, r_message = m, r_level = l\<rparr> \<and>
     effects s' = effects s @ [Print PLogWriteError] \<and>
     (\<exists>s''. log_alert_exc (e\<lparr>open_append := \<lambda>n. True\<rparr>) k m l s = Inr s'' \<and>
        alert_history s'' = alert_history s')"
proof -
  have failed: "log_alert_exc e k m l s = Inr (log_alert e k m l s)"
    using assms(2) by (simp add: log_alert_exc_returns)
  have written: "log_alert_exc (e\<lparr>open_append := \<lambda>n. True\<rparr>) k m l s =
      Inr (log_alert (e\<lparr>open_append := \<lambda>n. True\<rparr>) k m l s)"
    by (simp add: log_alert_exc_returns)
  show ?thesis
    unfolding failed written using assms(1)
    by (simp add: log_alert_fields log_effect_def slice_last_def)
qed

theorem log_alert_history_despite_write_failure_witness:
  "\<not> open_append (demo_env\<lparr>open_append := \<lambda>n. False\<rparr>) (tick (init_sys demo_config) + 1) \<and>
   console_write (demo_env\<lparr>open_append := \<lambda>n. False\<rparr>) (tick (init_sys demo_config) + 2) \<and>
   (\<exists>s'. log_alert_exc (demo_env\<lparr>open_append := \<lambda>n. False\<rparr>) ''CPU'' (CpuHigh 81 80)
            ''WARNING'' (init_sys demo_config) = Inr s' \<and>
      alert_history s' =
        [\<lparr>r_timestamp = ''2024-01-01 12:00:00'', r_type = ''CPU'',
           r_message = CpuHigh 81 80, r_level = ''WARNING''\<rparr>] \<and>
      effects s' = [Print PLogWriteError])"
proof -
  have a: "\<not> open_append (demo_env\<lparr>open_append := \<lambda>n. False\<rparr>) (tick (init_sys demo_config) + 1)"
    by simp
  have b: "console_write (demo_env\<lparr>open_append := \<lambda>n. False\<rparr>) (tick (init_sys demo_config) + 2)"
    by (simp add: demo_env_def)
  from log_alert_history_despite_write_failure [OF a b, of "''CPU''" "CpuHigh 81 80" "''WARNING''"]
  obtain s' where s': "log_alert_exc (demo_env\<lparr>open_append := \<lambda>n. False\<rparr>) ''CPU'' (CpuHigh 81 80)
            ''WARNING'' (init_sys demo_config) = Inr s'"
    "alert_history s' = slice_last 100 (alert_history (init_sys demo_config) @
        [\<lparr>r_timestamp = strftime_now (demo_env\<lparr>open_append := \<lambda>n. False\<rparr>)
            (tick (init_sys demo_config)), r_type = ''CPU'',
           r_message = CpuHigh 81 80, r_level = ''WARNING''\<rparr>])"
    "effects s' = effects (init_sys demo_config) @ [Print PLogWriteError]"
    by blast
  have "alert_history s' =
        [\<lparr>r_timestamp = ''2024-01-01 12:00:00'', r_type = ''CPU'',
           r_message = CpuHigh 81 80, r_level = ''WARNING''\<rparr>]"
    "effects s' = [Print PLogWriteError]"
    by (simp_all add: s' slice_last_def demo_env_def init_sys_def)
  with a b s'(1) show ?thesis by blast
qed

subsection \<open>C5: an email failure stops neither the log nor the webhook\<close>



subsection \<open>C7: the service check\<close>

text \<open>
  The record of a service alert is not qualified by the service: for the probe output
  \<open>unknown\<close> on \<open>mysql\<close> the check fires, the one record of the history has type
  \<open>SERVICE\<close>, and no record has type \<open>SERVICE:mysql\<close>.
\<close>

theorem service_record_kind_counterexample:
  "systemctl_is_active demo_env (tick (init_sys demo_config)) ''mysql'' = Some ''unknown'' \<and>
   fst (check_service_down demo_env ''mysql'' (init_sys demo_config)) \<and>
   alert_history (snd (check_service_down demo_env ''mysql'' (init_sys demo_config))) =
     [\<lparr>r_timestamp = ''2024-01-01 12:00:00'', r_type = ''SERVICE'',
       r_message = ServiceStopped ''mysql'', r_level = ''CRITICAL''\<rparr>] \<and>
   \<not> (\<exists>r \<in> set (alert_history (snd (check_service_down demo_env ''mysql''
          (init_sys demo_config)))). r_type r = ''SERVICE:mysql'')"
proof -
  have probe: "systemctl_is_active demo_env (tick (init_sys demo_config)) ''mysql'' = Some ''unknown''"
    by (simp add: demo_simps)
  have fired: "fst (check_service_down demo_env ''mysql'' (init_sys demo_config))"
    by (simp add: check_service_down_dispatch Let_def can_send_alert_def strip_examples demo_simps)
  have run: "check_service_down demo_env ''mysql'' (init_sys demo_config) =
      (True, dispatch demo_env (''SERVICE_'' @ ''mysql'') ''SERVICE'' ''CRITICAL''
        (SubjService ''mysql'') (ServiceStopped ''mysql'')
        (snd (can_send_alert demo_env (''SERVICE_'' @ ''mysql'')
           ((init_sys demo_config)\<lparr>tick := Suc (tick (init_sys demo_config))\<rparr>))))"
    using check_service_down_fired [OF fired, of "smtp_session demo_env"] by simp
  have history: "alert_history (snd (check_service_down demo_env ''mysql'' (init_sys demo_config))) =
     [\<lparr>r_timestamp = ''2024-01-01 12:00:00'', r_type = ''SERVICE'',
       r_message = ServiceStopped ''mysql'', r_level = ''CRITICAL''\<rparr>]"
    unfolding run snd_conv dispatch_history
    by (simp add: alert_records_def can_send_alert_state slice_last_def demo_simps)
  show ?thesis
    unfolding history using probe fired by simp
qed

text \<open>
  C7 (amended). For every service name, \<open>check_service_down\<close> fires exactly when the
  probe returned an output that does not strip to \<open>active\<close> and the cooldown of the key
  \<open>SERVICE_<name>\<close> permits; a probe that raises fires nothing. A check that fires
  records an entry of type \<open>SERVICE\<close> and level \<open>CRITICAL\<close> whose message names the
  service, and sets the time stamp of the key \<open>SERVICE_<name>\<close>.
\<close>

theorem service_down_alert:
  "(fst (check_service_down e svc s) \<longleftrightarrow>
      (\<exists>out. systemctl_is_active e (tick s) svc = Some out \<and> strip out \<noteq> ''active'') \<and>
      fst (can_send_alert e (''SERVICE_'' @ svc) (s\<lparr>tick := Suc (tick s)\<rparr>))) \<and>
   (fst (check_service_down e svc s) \<longrightarrow>
      (\<exists>stamp rest.
         alert_history (snd (check_service_down e svc s)) =
           slice_last 100 (alert_history s @
             \<lparr>r_timestamp = stamp, r_type = ''SERVICE'', r_message = ServiceStopped svc,
                r_level = ''CRITICAL''\<rparr> # rest) \<and>
         length rest \<le> 2 \<and> (\<forall>r \<in> set rest. channel_record r) \<and>
         \<lparr>r_timestamp = stamp, r_type = ''SERVICE'', r_message = ServiceStopped svc,
            r_level = ''CRITICAL''\<rparr> \<in> set (alert_history (snd (check_service_down e svc s)))) \<and>
      (\<exists>t. last_alert_time (snd (check_service_down e svc s)) =
             (last_alert_time s)(''SERVICE_'' @ svc \<mapsto> t)))"
proof -
  define s2 where "s2 = snd (can_send_alert e (''SERVICE_'' @ svc) (s\<lparr>tick := Suc (tick s)\<rparr>))"
  have iff: "fst (check_service_down e svc s) \<longleftrightarrow>
      (\<exists>out. systemctl_is_active e (tick s) svc = Some out \<and> strip out \<noteq> ''active'') \<and>
      fst (can_send_alert e (''SERVICE_'' @ svc) (s\<lparr>tick := Suc (tick s)\<rparr>))"
    by (auto simp: check_service_down_dispatch Let_def split: option.splits)
  have rest: "fst (check_service_down e svc s) \<longrightarrow>
      (\<exists>stamp rest.
         alert_history (snd (check_service_down e svc s)) =
           slice_last 100 (alert_history s @
             \<lparr>r_timestamp = stamp, r_type = ''SERVICE'', r_message = ServiceStopped svc,
                r_level = ''CRITICAL''\<rparr> # rest) \<and>
         length rest \<le> 2 \<and> (\<forall>r \<in> set rest. channel_record r) \<and>
         \<lparr>r_timestamp = stamp, r_type = ''SERVICE'', r_message = ServiceStopped svc,
            r_level = ''CRITICAL''\<rparr> \<in> set (alert_history (snd (check_service_down e svc s)))) \<and>
      (\<exists>t. last_alert_time (snd (check_service_down e svc s)) =
             (last_alert_time s)(''SERVICE_'' @ svc \<mapsto> t))"
  proof
    assume fired: "fst (check_service_down e svc s)"
    have run: "check_service_down e svc s =
        (True, dispatch e (''SERVICE_'' @ svc) ''SERVICE'' ''CRITICAL'' (SubjService svc)
           (ServiceStopped svc) s2)"
      using check_service_down_fired [OF fired, of "smtp_session e"] by (simp add: s2_def)
    have s2: "alert_history s2 = alert_history s"
      by (simp add: s2_def can_send_alert_fields)
    obtain others where others: "alert_records e s2 ''SERVICE'' ''CRITICAL'' (SubjService svc)
        (ServiceStopped svc) =
        \<lparr>r_timestamp = strftime_now e (tick s2), r_type = ''SERVICE'',
           r_message = ServiceStopped svc, r_level = ''CRITICAL''\<rparr> # others"
      "length others \<le> 2" "\<forall>r \<in> set others. channel_record r"
      using alert_records_shape [of e s2 "''SERVICE''" "''CRITICAL''" "SubjService svc"
          "ServiceStopped svc"] by blast
    define a where "a = \<lparr>r_timestamp = strftime_now e (tick s2), r_type = ''SERVICE'',
           r_message = ServiceStopped svc, r_level = ''CRITICAL''\<rparr>"
    have h: "alert_history (snd (check_service_down e svc s)) =
        slice_last 100 (alert_history s @ a # others)"
      by (simp add: run dispatch_history others s2 a_def)
    have "set (a # others) \<subseteq> set (slice_last 100 (alert_history s @ a # others))"
      by (rule slice_last_keeps) (use others(2) in simp)
    then have mem: "a \<in> set (alert_history (snd (check_service_down e svc s)))"
      by (simp add: h)
    have stamp: "\<exists>t. last_alert_time (snd (check_service_down e svc s)) =
             (last_alert_time s)(''SERVICE_'' @ svc \<mapsto> t)"
      using check_service_down_frame [of e svc s] fired by auto
    from h others(2,3) mem stamp show "(\<exists>stamp rest.
         alert_history (snd (check_service_down e svc s)) =
           slice_last 100 (alert_history s @
             \<lparr>r_timestamp = stamp, r_type = ''SERVICE'', r_message = ServiceStopped svc,
                r_level = ''CRITICAL''\<rparr> # rest) \<and>
         length rest \<le> 2 \<and> (\<forall>r \<in> set rest. channel_record r) \<and>
         \<lparr>r_timestamp = stamp, r_type = ''SERVICE'', r_message = ServiceStopped svc,
            r_level = ''CRITICAL''\<rparr> \<in> set (alert_history (snd (check_service_down e svc s)))) \<and>
      (\<exists>t. last_alert_time (snd (check_service_down e svc s)) =
             (last_alert_time s)(''SERVICE_'' @ svc \<mapsto> t))"
      unfolding a_def by blast
  qed
  from iff rest show ?thesis by blast
qed

theorem service_down_alert_witness:
  "systemctl_is_active demo_env (tick (init_sys demo_config)) ''mysql'' = Some ''unknown'' \<and>
   strip ''unknown'' \<noteq> ''active'' \<and>
   fst (check_service_down demo_env ''mysql'' (init_sys demo_config)) \<and>
   (\<exists>stamp. \<lparr>r_timestamp = stamp, r_type = ''SERVICE'', r_message = ServiceStopped ''mysql'',
       r_level = ''CRITICAL''\<rparr>
      \<in> set (alert_history (snd (check_service_down demo_env ''mysql'' (init_sys demo_config))))) \<and>
   (\<exists>t. last_alert_time (snd (check_service_down demo_env ''mysql'' (init_sys demo_config))) =
      [''SERVICE_mysql'' \<mapsto> t]) \<and>
   \<not> fst (check_service_down
       (demo_env\<lparr>systemctl_is_active := \<lambda>n svc. Some ''active\<newline>''\<rparr>)
       ''mysql'' (init_sys demo_config))"
proof -
  have a: "systemctl_is_active demo_env (tick (init_sys demo_config)) ''mysql'' = Some ''unknown''"
    by (simp add: demo_simps)
  have b: "strip ''unknown'' \<noteq> ''active''"
    by (simp add: strip_examples)
  have c: "fst (can_send_alert demo_env (''SERVICE_'' @ ''mysql'')
      ((init_sys demo_config)\<lparr>tick := Suc (tick (init_sys demo_config))\<rparr>))"
    by (simp add: can_send_alert_def demo_simps)
  note inst = service_down_alert [of demo_env "''mysql''" "init_sys demo_config"]
  from inst a b c have fired: "fst (check_service_down demo_env ''mysql'' (init_sys demo_config))"
    by blast
  with inst have recorded: "\<exists>stamp. \<lparr>r_timestamp = stamp, r_type = ''SERVICE'',
       r_message = ServiceStopped ''mysql'', r_level = ''CRITICAL''\<rparr>
      \<in> set (alert_history (snd (check_service_down demo_env ''mysql'' (init_sys demo_config))))"
    by blast
  from inst fired have stamp: "\<exists>t. last_alert_time (snd (check_service_down demo_env ''mysql''
      (init_sys demo_config))) = [''SERVICE_mysql'' \<mapsto> t]"
    by (simp add: init_sys_def)
  have healthy: "\<not> fst (check_service_down
       (demo_env\<lparr>systemctl_is_active := \<lambda>n svc. Some ''active\<newline>''\<rparr>)
       ''mysql'' (init_sys demo_config))"
    using service_down_alert [of "demo_env\<lparr>systemctl_is_active := \<lambda>n svc. Some ''active\<newline>''\<rparr>"
        "''mysql''" "init_sys demo_config"]
    by (simp add: strip_examples)
  from a b fired recorded stamp healthy show ?thesis by blast
qed

subsection \<open>C8: the severity of each kind\<close>

text \<open>
  C8. For each check with the type and level of the table (CPU, MEMORY and SWAP with
  WARNING, DISK and SERVICE with CRITICAL): a check that fires appends a record of that
  type and level, followed by at most two records of the channels (EMAIL with INFO or
  ERROR, WEBHOOK with INFO), and the record is in the resulting history; a check that
  does not fire leaves the history as it was; a history that respects the severity table
  still does after the check. A successful email send and a successful webhook post
  are recorded with level INFO.
\<close>

theorem severity_fixed_per_kind:
  assumes "(check, alert_type, lvl) \<in> set
     [(check_cpu, ''CPU'', ''WARNING''), (check_memory, ''MEMORY'', ''WARNING''),
      (check_disk, ''DISK'', ''CRITICAL''), (check_swap, ''SWAP'', ''WARNING''),
      (\<lambda>e. check_service_down e svc, ''SERVICE'', ''CRITICAL'')]"
  shows "(fst (check e s) \<longrightarrow>
           (\<exists>stamp msg rest.
              alert_history (snd (check e s)) =
                slice_last 100 (alert_history s @
                  \<lparr>r_timestamp = stamp, r_type = alert_type, r_message = msg, r_level = lvl\<rparr> # rest) \<and>
              length rest \<le> 2 \<and> (\<forall>r \<in> set rest. channel_record r) \<and>
              \<lparr>r_timestamp = stamp, r_type = alert_type, r_message = msg, r_level = lvl\<rparr>
                \<in> set (alert_history (snd (check e s))))) \<and>
         (\<not> fst (check e s) \<longrightarrow> alert_history (snd (check e s)) = alert_history s) \<and>
         (severity_table (alert_history s) \<longrightarrow> severity_table (alert_history (snd (check e s)))) \<and>
         (fst (send_email_alert e subj m s) \<longrightarrow>
            alert_history (snd (send_email_alert e subj m s)) =
              slice_last 100 (alert_history s @
                [\<lparr>r_timestamp = strftime_now e (tick s + 3), r_type = ''EMAIL'',
                   r_message = EmailSent subj, r_level = ''INFO''\<rparr>])) \<and>
         (fst (send_webhook_alert e m s) \<longrightarrow>
            alert_history (snd (send_webhook_alert e m s)) =
              slice_last 100 (alert_history s @
                [\<lparr>r_timestamp = strftime_now e (tick s + 2), r_type = ''WEBHOOK'',
                   r_message = WebhookSent, r_level = ''INFO''\<rparr>]))"
proof -
  have email_info: "fst (send_email_alert e subj m s) \<longrightarrow>
            alert_history (snd (send_email_alert e subj m s)) =
              slice_last 100 (alert_history s @
                [\<lparr>r_timestamp = strftime_now e (tick s + 3), r_type = ''EMAIL'',
                   r_message = EmailSent subj, r_level = ''INFO''\<rparr>])"
  proof (cases "email_enabled (email (config s))")
    case True
    then show ?thesis
      by (simp add: send_email_alert_enabled send_email_alert_history email_record_def)
  next
    case False
    then show ?thesis
      by (simp add: send_email_alert_def)
  qed
  have webhook_info: "fst (send_webhook_alert e m s) \<longrightarrow>
            alert_history (snd (send_webhook_alert e m s)) =
              slice_last 100 (alert_history s @
                [\<lparr>r_timestamp = strftime_now e (tick s + 2), r_type = ''WEBHOOK'',
                   r_message = WebhookSent, r_level = ''INFO''\<rparr>])"
  proof (cases "webhook_enabled (webhook (config s))")
    case True
    then show ?thesis
      by (simp add: send_webhook_alert_enabled webhook_records_def)
  next
    case False
    then show ?thesis
      by (simp add: send_webhook_alert_def)
  qed
  from assms have "(check = check_cpu \<and> alert_type = ''CPU'' \<and> lvl = ''WARNING'') \<or>
      (check = check_memory \<and> alert_type = ''MEMORY'' \<and> lvl = ''WARNING'') \<or>
      (check = check_disk \<and> alert_type = ''DISK'' \<and> lvl = ''CRITICAL'') \<or>
      (check = check_swap \<and> alert_type = ''SWAP'' \<and> lvl = ''WARNING'') \<or>
      (check = (\<lambda>e. check_service_down e svc) \<and> alert_type = ''SERVICE'' \<and> lvl = ''CRITICAL'')"
    by simp
  then consider
      (cpu) "check = check_cpu" "alert_type = ''CPU''" "lvl = ''WARNING''"
    | (mem) "check = check_memory" "alert_type = ''MEMORY''" "lvl = ''WARNING''"
    | (dsk) "check = check_disk" "alert_type = ''DISK''" "lvl = ''CRITICAL''"
    | (swp) "check = check_swap" "alert_type = ''SWAP''" "lvl = ''WARNING''"
    | (svc) "check = (\<lambda>e. check_service_down e svc)" "alert_type = ''SERVICE''" "lvl = ''CRITICAL''"
    by (elim disjE conjE) blast+
  then have "(fst (check e s) \<longrightarrow>
           (\<exists>stamp msg rest.
              alert_history (snd (check e s)) =
                slice_last 100 (alert_history s @
                  \<lparr>r_timestamp = stamp, r_type = alert_type, r_message = msg, r_level = lvl\<rparr> # rest) \<and>
              length rest \<le> 2 \<and> (\<forall>r \<in> set rest. channel_record r) \<and>
              \<lparr>r_timestamp = stamp, r_type = alert_type, r_message = msg, r_level = lvl\<rparr>
                \<in> set (alert_history (snd (check e s))))) \<and>
         (\<not> fst (check e s) \<longrightarrow> alert_history (snd (check e s)) = alert_history s) \<and>
         (severity_table (alert_history s) \<longrightarrow> severity_table (alert_history (snd (check e s))))"
  proof cases
    case cpu
    show ?thesis
      unfolding cpu
    proof (rule severity_via_dispatch [OF _ _ _ kinds_in_table(1)])
      show "fst (check_cpu e s) \<Longrightarrow> check_cpu e s =
          (True, dispatch e ''CPU'' ''CPU'' ''WARNING'' SubjCpu
             (CpuHigh (cpu_percent e (tick s)) (cpu (cfg_thresholds (config s))))
             (snd (can_send_alert e ''CPU'' (s\<lparr>tick := Suc (tick s)\<rparr>))))"
        using check_cpu_fired [of e s "smtp_session e"] by simp
      show "\<not> fst (check_cpu e s) \<Longrightarrow> alert_history (snd (check_cpu e s)) = alert_history s"
        using check_cpu_frame [of e s] by simp
      show "alert_history (snd (can_send_alert e ''CPU'' (s\<lparr>tick := Suc (tick s)\<rparr>))) =
          alert_history s"
        by (simp add: can_send_alert_fields)
    qed
  next
    case mem
    show ?thesis
      unfolding mem
    proof (rule severity_via_dispatch [OF _ _ _ kinds_in_table(2)])
      show "fst (check_memory e s) \<Longrightarrow> check_memory e s =
          (True, dispatch e ''MEMORY'' ''MEMORY'' ''WARNING'' SubjMemory
             (MemoryHigh (virtual_memory_percent e (tick s)) (memory (cfg_thresholds (config s))))
             (snd (can_send_alert e ''MEMORY'' (s\<lparr>tick := Suc (tick s)\<rparr>))))"
        using check_memory_fired [of e s "smtp_session e"] by simp
      show "\<not> fst (check_memory e s) \<Longrightarrow> alert_history (snd (check_memory e s)) = alert_history s"
        using check_memory_frame [of e s] by simp
      show "alert_history (snd (can_send_alert e ''MEMORY'' (s\<lparr>tick := Suc (tick s)\<rparr>))) =
          alert_history s"
        by (simp add: can_send_alert_fields)
    qed
  next
    case dsk
    show ?thesis
      unfolding dsk
    proof (rule severity_via_dispatch [OF _ _ _ kinds_in_table(4)])
      show "fst (check_disk e s) \<Longrightarrow> check_disk e s =
          (True, dispatch e ''DISK'' ''DISK'' ''CRITICAL'' SubjDisk
             (DiskFull (disk_usage_percent e (tick s)) (disk (cfg_thresholds (config s))))
             (snd (can_send_alert e ''DISK'' (s\<lparr>tick := Suc (tick s)\<rparr>))))"
        using check_disk_fired [of e s "smtp_session e"] by simp
      show "\<not> fst (check_disk e s) \<Longrightarrow> alert_history (snd (check_disk e s)) = alert_history s"
        using check_disk_frame [of e s] by simp
      show "alert_history (snd (can_send_alert e ''DISK'' (s\<lparr>tick := Suc (tick s)\<rparr>))) =
          alert_history s"
        by (simp add: can_send_alert_fields)
    qed
  next
    case swp
    show ?thesis
      unfolding swp
    proof (rule severity_via_dispatch [OF _ _ _ kinds_in_table(3)])
      show "fst (check_swap e s) \<Longrightarrow> check_swap e s =
          (True, dispatch e ''SWAP'' ''SWAP'' ''WARNING'' SubjSwap
             (SwapHigh (snd (swap_memory e (tick s))) (swap (cfg_thresholds (config s))))
             (snd (can_send_alert e ''SWAP'' (s\<lparr>tick := Suc (tick s)\<rparr>))))"
        using check_swap_fired [of e s "smtp_session e"] by simp
      show "\<not> fst (check_swap e s) \<Longrightarrow> alert_history (snd (check_swap e s)) = alert_history s"
        using check_swap_frame [of e s] by simp
      show "alert_history (snd (can_send_alert e ''SWAP'' (s\<lparr>tick := Suc (tick s)\<rparr>))) =
          alert_history s"
        by (simp add: can_send_alert_fields)
    qed
  next
    case svc
    show ?thesis
      unfolding svc
    proof (rule severity_via_dispatch [OF _ _ _ kinds_in_table(5)])
      show "fst (check_service_down e svc s) \<Longrightarrow> check_service_down e svc s =
          (True, dispatch e (''SERVICE_'' @ svc) ''SERVICE'' ''CRITICAL'' (SubjService svc)
             (ServiceStopped svc)
             (snd (can_send_alert e (''SERVICE_'' @ svc) (s\<lparr>tick := Suc (tick s)\<rparr>))))"
        using check_service_down_fired [of e svc s "smtp_session e"] by simp
      show "\<not> fst (check_service_down e svc s) \<Longrightarrow> alert_history (snd (check_service_down e svc s)) = alert_history s"
        using check_service_down_frame [of e svc s] by simp
      show "alert_history (snd (can_send_alert e (''SERVICE_'' @ svc) (s\<lparr>tick := Suc (tick s)\<rparr>))) =
          alert_history s"
        by (simp add: can_send_alert_fields)
    qed
  qed
  with email_info webhook_info show ?thesis by blast
qed

theorem severity_fixed_per_kind_witness:
  "(check_cpu, ''CPU'', ''WARNING'') \<in> set
     [(check_cpu, ''CPU'', ''WARNING''), (check_memory, ''MEMORY'', ''WARNING''),
      (check_disk, ''DISK'', ''CRITICAL''), (check_swap, ''SWAP'', ''WARNING''),
      (\<lambda>e. check_service_down e ''mysql'', ''SERVICE'', ''CRITICAL'')] \<and>
   fst (check_cpu demo_env (init_sys demo_config)) \<and>
   severity_table (alert_history (init_sys demo_config)) \<and>
   severity_table (alert_history (snd (check_cpu demo_env (init_sys demo_config)))) \<and>
   (\<exists>stamp msg. \<lparr>r_timestamp = stamp, r_type = ''CPU'', r_message = msg, r_level = ''WARNING''\<rparr>
      \<in> set (alert_history (snd (check_cpu demo_env (init_sys demo_config))))) \<and>
   fst (send_email_alert demo_env SubjCpu (CpuHigh 81 80) (init_sys alerting_config)) \<and>
   alert_history (snd (send_email_alert demo_env SubjCpu (CpuHigh 81 80) (init_sys alerting_config))) =
     [\<lparr>r_timestamp = ''2024-01-01 12:00:00'', r_type = ''EMAIL'',
       r_message = EmailSent SubjCpu, r_level = ''INFO''\<rparr>]"
proof -
  have a: "(check_cpu, ''CPU'', ''WARNING'') \<in> set
     [(check_cpu, ''CPU'', ''WARNING''), (check_memory, ''MEMORY'', ''WARNING''),
      (check_disk, ''DISK'', ''CRITICAL''), (check_swap, ''SWAP'', ''WARNING''),
      (\<lambda>e. check_service_down e ''mysql'', ''SERVICE'', ''CRITICAL'')]"
    by simp
  have b: "fst (check_cpu demo_env (init_sys demo_config))"
    by (simp add: check_cpu_dispatch Let_def can_send_alert_def demo_simps)
  have c: "severity_table (alert_history (init_sys demo_config))"
    by (simp add: severity_table_def init_sys_def)
  have d: "fst (send_email_alert demo_env SubjCpu (CpuHigh 81 80) (init_sys alerting_config))"
    by (simp add: send_email_alert_enabled demo_simps)
  note inst = severity_fixed_per_kind [OF a, of demo_env "init_sys demo_config"]
  have e: "alert_history (snd (send_email_alert demo_env SubjCpu (CpuHigh 81 80)
        (init_sys alerting_config))) =
     [\<lparr>r_timestamp = ''2024-01-01 12:00:00'', r_type = ''EMAIL'',
       r_message = EmailSent SubjCpu, r_level = ''INFO''\<rparr>]"
    using severity_fixed_per_kind [OF a, of demo_env "init_sys alerting_config" SubjCpu "CpuHigh 81 80"] d
    by (simp add: slice_last_def demo_simps)
  from inst b c have "severity_table (alert_history (snd (check_cpu demo_env (init_sys demo_config))))"
    by blast
  moreover from inst b have "\<exists>stamp msg.
      \<lparr>r_timestamp = stamp, r_type = ''CPU'', r_message = msg, r_level = ''WARNING''\<rparr>
      \<in> set (alert_history (snd (check_cpu demo_env (init_sys demo_config))))"
    by blast
  ultimately show ?thesis
    using a b c d e by blast
qed

subsection \<open>C9: the generated configuration file reads back with the same values\<close>

text \<open>
  C9. When no file exists at the path, the file can be created and the JSON library
  loads back the example it dumped: \<open>load_config\<close> returns the defaults and leaves the
  dumped example at the path; loading again from that host yields the same
  \<open>thresholds\<close> (80, 85, 90 and 80 for cpu, memory, disk and swap) and the same
  \<open>check_interval\<close> (60) as the first call returned.
\<close>

theorem config_round_trip:
  assumes "files h path = None"
    and "creatable fe path"
    and "json_load fe (json_dump fe (JObj example_config)) = Some (JObj example_config)"
  shows "fst (load_config fe path h) = default_config \<and>
         files (snd (load_config fe path h)) path =
           Some (Regular (json_dump fe (JObj example_config))) \<and>
         lookup (fst (load_config fe path (snd (load_config fe path h)))) ''thresholds'' =
           lookup (fst (load_config fe path h)) ''thresholds'' \<and>
         lookup2 (fst (load_config fe path (snd (load_config fe path h)))) ''thresholds'' ''cpu'' =
           Some (JFloat 80) \<and>
         lookup2 (fst (load_config fe path (snd (load_config fe path h)))) ''thresholds'' ''memory'' =
           Some (JFloat 85) \<and>
         lookup2 (fst (load_config fe path (snd (load_config fe path h)))) ''thresholds'' ''disk'' =
           Some (JFloat 90) \<and>
         lookup2 (fst (load_config fe path (snd (load_config fe path h)))) ''thresholds'' ''swap'' =
           Some (JFloat 80) \<and>
         lookup (fst (load_config fe path (snd (load_config fe path h)))) ''check_interval'' =
           lookup (fst (load_config fe path h)) ''check_interval'' \<and>
         lookup (fst (load_config fe path h)) ''check_interval'' = Some (JInt 60)"
proof -
  define h1 where "h1 = snd (load_config fe path h)"
  have first: "load_config fe path h = (default_config, h1)"
    by (simp add: h1_def load_config_absent assms(1))
  have written: "files h1 path = Some (Regular (json_dump fe (JObj example_config)))"
    by (simp add: h1_def load_config_absent assms(1,2) create_example_config_def say_def)
  have second: "load_config fe path h1 = (example_config, say (CfgLoaded path) h1)"
    by (rule load_config_generated [OF written assms(3)])
  show ?thesis
    unfolding h1_def [symmetric] first second fst_conv snd_conv
    by (simp add: written lookup_def lookup2_def default_config_def example_config_def)
qed

theorem config_round_trip_witness:
  "files empty_host ''alerts.json'' = None \<and>
   creatable demo_cfg_env ''alerts.json'' \<and>
   json_load demo_cfg_env (json_dump demo_cfg_env (JObj example_config)) = Some (JObj example_config) \<and>
   lookup2 (fst (load_config demo_cfg_env ''alerts.json''
       (snd (load_config demo_cfg_env ''alerts.json'' empty_host)))) ''thresholds'' ''cpu'' =
     Some (JFloat 80) \<and>
   lookup (fst (load_config demo_cfg_env ''alerts.json''
       (snd (load_config demo_cfg_env ''alerts.json'' empty_host)))) ''check_interval'' =
     Some (JInt 60)"
proof -
  have a: "files empty_host ''alerts.json'' = None"
    by (simp add: empty_host_def)
  have b: "creatable demo_cfg_env ''alerts.json''"
    by (simp add: demo_cfg_env_def)
  have c: "json_load demo_cfg_env (json_dump demo_cfg_env (JObj example_config)) =
      Some (JObj example_config)"
    by (simp add: demo_cfg_env_def)
  show ?thesis
    using config_round_trip [OF a b c] a b c by metis
qed

end
